theory Spec2Isabelle
  imports Main "HOL-Library.Char_ord"
begin

section \<open>Data model\<close>

text \<open>
  Row identifiers are generated by the store; they are modelled as natural numbers drawn
  from a counter. Timestamps are milliseconds since the epoch, as a JavaScript Date holds
  them.
\<close>

type_synonym ident = nat
type_synonym time = nat

text \<open>
  Strings are byte strings: the UTF-8 encoding of the JavaScript string.

  A token as the jsonwebtoken library signs and verifies it, symbolically: the signing
  secret, the payload's userId, and the iat and exp claims (in seconds). Every string that
  is not such a signature is Opaque. Signing is deterministic: the same payload, secret and
  second give the same token.
\<close>

datatype token = Jwt string ident nat int | Opaque string

datatype jwt_error = JsonWebTokenError | TokenExpiredError

text \<open>
  A field of a JSON request body: absent, null, a string, or a value of another type
  (boolean, number, array, object), of which only the truthiness is kept.
\<close>

datatype 'a json = Undefined | Null | Str 'a | NonString bool

record user =
  u_id :: ident
  u_email :: string
  u_username :: string
  u_password :: string
  u_firstName :: "string option"
  u_lastName :: "string option"
  u_isActive :: bool
  u_isAdmin :: bool

record device =
  d_id :: ident
  d_macAddress :: string
  d_ipAddress :: string
  d_deviceName :: string
  d_userAgent :: "string option"
  d_userId :: ident
  d_lastSeen :: time
  d_isActive :: bool

record session =
  s_id :: ident
  s_refreshToken :: token
  s_userId :: ident
  s_expiresAt :: time
  s_isActive :: bool

record connection =
  c_id :: ident
  c_userId :: ident
  c_deviceId :: ident
  c_ipAddress :: string
  c_startTime :: time
  c_endTime :: "time option"
  c_isActive :: bool

datatype details = NoDetails | DeviceDetails ident string | DisconnectedDevices nat

record auditLog =
  a_action :: string
  a_userId :: ident
  a_ipAddress :: string
  a_userAgent :: "string option"
  a_details :: details

subsection \<open>The packet filter\<close>

datatype mtch =
    InInterface string
  | OutInterface string
  | ConnState string
  | Protocol string
  | DestPort nat
  | MacSource string
  | SourceAddr string

datatype target = ACCEPT | DROP

type_synonym rule = "mtch list \<times> target"

datatype chain = FORWARD | NAT_PREROUTING | NAT_POSTROUTING

record netfilter =
  forward :: "rule list"
  nat_prerouting :: "rule list"
  nat_postrouting :: "rule list"

text \<open>
  The iptables invocations the services issue: -C (check), -I (insert at the head),
  -A (append), -D (delete the first matching rule) and -F (flush the chain).
\<close>

datatype iptables_cmd =
    Check chain rule
  | Insert chain rule
  | Append chain rule
  | Delete chain rule
  | Flush chain

text \<open>
  A shell command line handed to execAsync: the iptables invocation alone, or followed by
  \<^verbatim>\<open>2>/dev/null || true\<close>, which hides the exit status of iptables.
\<close>

datatype shell = Run iptables_cmd | RunOrTrue iptables_cmd

subsection \<open>Observable effects and the world\<close>

datatype table = DeviceTable | SessionTable | ConnectionTable | AuditLogTable

datatype operation = Create | Update | UpdateMany | DeleteRow

text \<open>
  Every shell command started and every write sent to the store is recorded, in the order
  the handlers issue them. Reads are not recorded.
\<close>

datatype effect = Shell shell | Store table operation

record world =
  users :: "user list"
  devices :: "device list"
  sessions :: "session list"
  connections :: "connection list"
  auditLogs :: "auditLog list"
  filter_state :: netfilter
  nextId :: ident
  trace :: "effect list"

text \<open>
  What a handler reads of the process environment and of the libraries and the clock it
  calls.
  \<^item> MAX_DEVICES_PER_USER as parseInt reads it (None when unset or not a number);
  \<^item> the two signing secrets (the empty string when unset) and the two lifetimes, as the
    strings the environment holds;
  \<^item> \<open>md5_hex\<close>: the hexadecimal MD5 digest of the crypto module, 32 hexadecimal characters;
  \<^item> \<open>bcrypt_compare\<close>: bcrypt.compare of a password and a stored hash;
  \<^item> \<open>timespan_seconds\<close>: the whole seconds jsonwebtoken adds to iat for an expiresIn
    string (it reads the string with the ms package and rounds down), None when it
    refuses the string;
  \<^item> \<open>days_later\<close>: \<^verbatim>\<open>d.setDate(d.getDate() + n)\<close> in the time zone of the server.
\<close>

record env =
  MAX_DEVICES_PER_USER :: "int option"
  JWT_SECRET :: string
  JWT_REFRESH_SECRET :: string
  JWT_EXPIRES_IN :: "string option"
  JWT_REFRESH_EXPIRES_IN :: "string option"
  md5_hex :: "string \<Rightarrow> string"
  bcrypt_compare :: "string \<Rightarrow> string \<Rightarrow> bool"
  timespan_seconds :: "string \<Rightarrow> int option"
  days_later :: "nat \<Rightarrow> time \<Rightarrow> time"

text \<open>The parts of an HTTP request the handlers read.\<close>

datatype authorization = Bearer token | OtherScheme string

record request =
  req_ip :: string
  req_remoteAddress :: string
  req_userAgent :: "string option"
  req_forwardedFor :: "string option"
  req_authorization :: "authorization option"

text \<open>
  A response: the HTTP status and the JSON body. ValidationFailed carries the field and the
  message of every detail; DuplicateEntry the column the store names. The message and
  stack a development build adds to a 500 body are left out.
\<close>

record userView =
  uv_id :: ident
  uv_email :: string
  uv_username :: string
  uv_firstName :: "string option"
  uv_lastName :: "string option"
  uv_isAdmin :: bool

record deviceView =
  dv_id :: ident
  dv_name :: string
  dv_macAddress :: string

datatype body =
    Error string
  | ValidationFailed "(string \<times> string) list"
  | DuplicateEntry string
  | DeviceLimitReached int nat int
  | LoginSuccessful token token userView deviceView
  | Tokens token token
  | Message string
  | DeviceWithConnections device "connection list"
  | DeviceUpdated device
  | ConnectionPage "connection list" nat nat nat
  | AllDisconnected nat

type_synonym reply = "nat \<times> body"

section \<open>The network service\<close>

definition record_effect :: "effect \<Rightarrow> world \<Rightarrow> world" where
  "record_effect e w = w\<lparr>trace := trace w @ [e]\<rparr>"

fun get_chain :: "chain \<Rightarrow> netfilter \<Rightarrow> rule list" where
  "get_chain FORWARD nf = forward nf"
| "get_chain NAT_PREROUTING nf = nat_prerouting nf"
| "get_chain NAT_POSTROUTING nf = nat_postrouting nf"

fun set_chain :: "chain \<Rightarrow> rule list \<Rightarrow> netfilter \<Rightarrow> netfilter" where
  "set_chain FORWARD rs nf = nf\<lparr>forward := rs\<rparr>"
| "set_chain NAT_PREROUTING rs nf = nf\<lparr>nat_prerouting := rs\<rparr>"
| "set_chain NAT_POSTROUTING rs nf = nf\<lparr>nat_postrouting := rs\<rparr>"

text \<open>
  iptables on the rule table: the exit status (True for 0) and the table afterwards.
  -C and -D exit non-zero when no rule of the chain matches.
\<close>

fun iptables :: "iptables_cmd \<Rightarrow> netfilter \<Rightarrow> bool \<times> netfilter" where
  "iptables (Check c r) nf = (r \<in> set (get_chain c nf), nf)"
| "iptables (Insert c r) nf = (True, set_chain c (r # get_chain c nf) nf)"
| "iptables (Append c r) nf = (True, set_chain c (get_chain c nf @ [r]) nf)"
| "iptables (Delete c r) nf =
     (if r \<in> set (get_chain c nf) then (True, set_chain c (remove1 r (get_chain c nf)) nf)
      else (False, nf))"
| "iptables (Flush c) nf = (True, set_chain c [] nf)"

text \<open>
  execAsync: the promise resolves (True) or rejects (False). The first argument says which
  command lines cannot be run at all during this request (the child process fails or times
  out); such a command leaves the filter as it is. Otherwise the promise rejects exactly
  when the command line exits non-zero.
\<close>

definition execAsync :: "(shell \<Rightarrow> bool) \<Rightarrow> shell \<Rightarrow> world \<Rightarrow> bool \<times> world" where
  "execAsync fails cmd w =
     (let w1 = record_effect (Shell cmd) w in
      if fails cmd then (False, w1)
      else (case cmd of
              Run i \<Rightarrow>
                (let (ok, nf) = iptables i (filter_state w1) in (ok, w1\<lparr>filter_state := nf\<rparr>))
            | RunOrTrue i \<Rightarrow>
                (True, w1\<lparr>filter_state := snd (iptables i (filter_state w1))\<rparr>)))"

definition mac_rule :: "string \<Rightarrow> rule" where
  "mac_rule macAddress = ([MacSource macAddress], ACCEPT)"

definition ip_rule :: "string \<Rightarrow> rule" where
  "ip_rule ipAddress = ([SourceAddr ipAddress], ACCEPT)"

text \<open>
  addDeviceToWhitelist: True when it returns, False when it throws. A rejected check is
  taken as "no such rule"; a rejected insert is rethrown.
\<close>

definition addDeviceToWhitelist ::
  "(shell \<Rightarrow> bool) \<Rightarrow> string \<Rightarrow> string \<Rightarrow> world \<Rightarrow> bool \<times> world" where
  "addDeviceToWhitelist fails macAddress ipAddress w =
     (let (found, w1) = execAsync fails (Run (Check FORWARD (mac_rule macAddress))) w in
      if found then (True, w1)
      else
        (let (ok1, w2) = execAsync fails (Run (Insert FORWARD (mac_rule macAddress))) w1 in
         if \<not> ok1 then (False, w2)
         else execAsync fails (Run (Insert FORWARD (ip_rule ipAddress))) w2))"

definition removeDeviceFromWhitelist ::
  "(shell \<Rightarrow> bool) \<Rightarrow> string \<Rightarrow> string \<Rightarrow> world \<Rightarrow> bool \<times> world" where
  "removeDeviceFromWhitelist fails macAddress ipAddress w =
     (let (ok1, w1) = execAsync fails (RunOrTrue (Delete FORWARD (mac_rule macAddress))) w in
      if \<not> ok1 then (False, w1)
      else execAsync fails (RunOrTrue (Delete FORWARD (ip_rule ipAddress))) w1)"

text \<open>The commands of initializeCaptivePortal, in the order it issues them.\<close>

definition base_policy :: "shell list" where
  "base_policy =
     [Run (Flush FORWARD),
      Run (Insert FORWARD ([InInterface ''lo''], ACCEPT)),
      Run (Insert FORWARD ([OutInterface ''lo''], ACCEPT)),
      Run (Insert FORWARD ([ConnState ''ESTABLISHED,RELATED''], ACCEPT)),
      Run (Insert FORWARD ([Protocol ''udp'', DestPort 53], ACCEPT)),
      Run (Insert FORWARD ([Protocol ''tcp'', DestPort 53], ACCEPT)),
      Run (Insert FORWARD ([Protocol ''tcp'', DestPort 80], ACCEPT)),
      Run (Insert FORWARD ([Protocol ''tcp'', DestPort 443], ACCEPT)),
      Run (Insert FORWARD ([Protocol ''tcp'', DestPort 5000], ACCEPT)),
      Run (Append FORWARD ([], DROP))]"

text \<open>Commands awaited one after the other; the first rejection is thrown.\<close>

fun exec_all :: "(shell \<Rightarrow> bool) \<Rightarrow> shell list \<Rightarrow> world \<Rightarrow> bool \<times> world" where
  "exec_all fails [] w = (True, w)"
| "exec_all fails (cmd # cmds) w =
     (let (ok, w1) = execAsync fails cmd w in
      if ok then exec_all fails cmds w1 else (False, w1))"

definition initializeCaptivePortal :: "(shell \<Rightarrow> bool) \<Rightarrow> world \<Rightarrow> bool \<times> world" where
  "initializeCaptivePortal fails w = exec_all fails base_policy w"

subsection \<open>Device fingerprint\<close>

definition toLowerCase :: "string \<Rightarrow> string" where
  "toLowerCase s =
     map (\<lambda>c. if CHR ''A'' \<le> c \<and> c \<le> CHR ''Z'' then char_of (of_char c + (32::nat)) else c) s"

fun pairs :: "string \<Rightarrow> string list" where
  "pairs [] = []"
| "pairs [a] = [[a]]"
| "pairs (a # b # rest) = [a, b] # pairs rest"

fun join :: "string \<Rightarrow> string list \<Rightarrow> string" where
  "join sep [] = []"
| "join sep [x] = x"
| "join sep (x # y # ys) = x @ sep @ join sep (y # ys)"

fun startsWith :: "string \<Rightarrow> string \<Rightarrow> bool" where
  "startsWith s [] = True"
| "startsWith [] (p # ps) = False"
| "startsWith (c # cs) (p # ps) = (c = p \<and> startsWith cs ps)"

fun str_includes :: "string \<Rightarrow> string \<Rightarrow> bool" where
  "str_includes [] needle = (needle = [])"
| "str_includes (c # cs) needle = (startsWith (c # cs) needle \<or> str_includes cs needle)"

record deviceInfo =
  di_macAddress :: string
  di_ipAddress :: string
  di_deviceName :: string
  di_userAgent :: string

text \<open>
  getDeviceInfo: the pseudo hardware address is the first six byte pairs of the MD5 digest
  of the address and the client signature. The address is the first entry of
  X-Forwarded-For when that header is present and non-empty, the socket's peer otherwise.
\<close>

definition getDeviceInfo :: "env \<Rightarrow> request \<Rightarrow> deviceInfo" where
  "getDeviceInfo e req =
     (let userAgent = (case req_userAgent req of None \<Rightarrow> [] | Some ua \<Rightarrow> ua);
          ip = (case req_forwardedFor req of
                  None \<Rightarrow> req_remoteAddress req
                | Some fwd \<Rightarrow>
                    if fwd = [] then req_remoteAddress req
                    else takeWhile (\<lambda>c. c \<noteq> CHR '','') fwd);
          hash = md5_hex e (ip @ userAgent);
          macAddress = toLowerCase (join '':'' (take 6 (pairs hash)));
          deviceName =
            (if str_includes userAgent ''Windows'' then ''Windows PC''
             else if str_includes userAgent ''Mac'' then ''Mac''
             else if str_includes userAgent ''iPhone'' then ''iPhone''
             else if str_includes userAgent ''iPad'' then ''iPad''
             else if str_includes userAgent ''Android'' then ''Android Device''
             else if str_includes userAgent ''Linux'' then ''Linux Device''
             else ''Unknown Device'')
      in \<lparr>di_macAddress = macAddress, di_ipAddress = ip, di_deviceName = deviceName,
          di_userAgent = userAgent\<rparr>)"

section \<open>The store\<close>

text \<open>
  The queries the handlers send. A new row gets the next identifier; the columns the
  handlers leave out take the schema's defaults (isActive true, no end time). The store
  itself answers every query; the one refusal modelled is that of a duplicate value in a
  unique column.
\<close>

definition device_count :: "ident \<Rightarrow> world \<Rightarrow> nat" where
  "device_count userId w =
     length (filter (\<lambda>d. d_userId d = userId \<and> d_isActive d) (devices w))"

definition device_findUnique :: "string \<Rightarrow> world \<Rightarrow> device option" where
  "device_findUnique macAddress w = find (\<lambda>d. d_macAddress d = macAddress) (devices w)"

definition device_findFirst :: "ident \<Rightarrow> ident \<Rightarrow> world \<Rightarrow> device option" where
  "device_findFirst deviceId userId w =
     find (\<lambda>d. d_id d = deviceId \<and> d_userId d = userId) (devices w)"

definition device_create ::
  "string \<Rightarrow> string \<Rightarrow> string \<Rightarrow> string option \<Rightarrow> ident \<Rightarrow> time \<Rightarrow> world
     \<Rightarrow> device \<times> world" where
  "device_create macAddress ipAddress deviceName userAgent userId lastSeen w =
     (let d = \<lparr>d_id = nextId w, d_macAddress = macAddress, d_ipAddress = ipAddress,
                d_deviceName = deviceName, d_userAgent = userAgent, d_userId = userId,
                d_lastSeen = lastSeen, d_isActive = True\<rparr>
      in (d, record_effect (Store DeviceTable Create)
               (w\<lparr>devices := devices w @ [d], nextId := Suc (nextId w)\<rparr>)))"

definition device_update :: "ident \<Rightarrow> (device \<Rightarrow> device) \<Rightarrow> world \<Rightarrow> world" where
  "device_update deviceId change w =
     record_effect (Store DeviceTable Update)
       (w\<lparr>devices := map (\<lambda>d. if d_id d = deviceId then change d else d) (devices w)\<rparr>)"

definition device_updateMany ::
  "(device \<Rightarrow> bool) \<Rightarrow> (device \<Rightarrow> device) \<Rightarrow> world \<Rightarrow> world" where
  "device_updateMany cond change w =
     record_effect (Store DeviceTable UpdateMany)
       (w\<lparr>devices := map (\<lambda>d. if cond d then change d else d) (devices w)\<rparr>)"

text \<open>Deleting a device deletes the connections that refer to it.\<close>

definition device_delete :: "ident \<Rightarrow> world \<Rightarrow> world" where
  "device_delete deviceId w =
     record_effect (Store DeviceTable DeleteRow)
       (w\<lparr>devices := filter (\<lambda>d. d_id d \<noteq> deviceId) (devices w),
          connections := filter (\<lambda>c. c_deviceId c \<noteq> deviceId) (connections w)\<rparr>)"

text \<open>
  refreshToken is a unique column: a create or an update that would give two rows the same
  value is refused (False), and the table is left as it was.
\<close>

definition session_create :: "token \<Rightarrow> ident \<Rightarrow> time \<Rightarrow> world \<Rightarrow> bool \<times> world" where
  "session_create refreshToken userId expiresAt w =
     (let w1 = record_effect (Store SessionTable Create) w in
      if list_ex (\<lambda>s. s_refreshToken s = refreshToken) (sessions w) then (False, w1)
      else (True,
            w1\<lparr>sessions := sessions w @
                   [\<lparr>s_id = nextId w, s_refreshToken = refreshToken, s_userId = userId,
                     s_expiresAt = expiresAt, s_isActive = True\<rparr>],
               nextId := Suc (nextId w)\<rparr>))"

definition session_findUnique :: "token \<Rightarrow> time \<Rightarrow> world \<Rightarrow> session option" where
  "session_findUnique refreshToken now w =
     find (\<lambda>s. s_refreshToken s = refreshToken \<and> s_isActive s \<and> now < s_expiresAt s)
       (sessions w)"

definition session_deactivate :: "ident \<Rightarrow> world \<Rightarrow> world" where
  "session_deactivate sessionId w =
     record_effect (Store SessionTable Update)
       (w\<lparr>sessions := map (\<lambda>s. if s_id s = sessionId then s\<lparr>s_isActive := False\<rparr> else s)
                          (sessions w)\<rparr>)"

definition session_rotate :: "ident \<Rightarrow> token \<Rightarrow> time \<Rightarrow> world \<Rightarrow> bool \<times> world" where
  "session_rotate sessionId refreshToken expiresAt w =
     (let w1 = record_effect (Store SessionTable Update) w in
      if list_ex (\<lambda>s. s_id s \<noteq> sessionId \<and> s_refreshToken s = refreshToken) (sessions w)
      then (False, w1)
      else (True,
            w1\<lparr>sessions :=
                 map (\<lambda>s. if s_id s = sessionId
                          then s\<lparr>s_refreshToken := refreshToken, s_expiresAt := expiresAt\<rparr>
                          else s) (sessions w)\<rparr>))"

definition session_updateMany :: "(session \<Rightarrow> bool) \<Rightarrow> world \<Rightarrow> world" where
  "session_updateMany cond w =
     record_effect (Store SessionTable UpdateMany)
       (w\<lparr>sessions := map (\<lambda>s. if cond s then s\<lparr>s_isActive := False\<rparr> else s) (sessions w)\<rparr>)"

definition connection_create :: "ident \<Rightarrow> ident \<Rightarrow> string \<Rightarrow> time \<Rightarrow> world \<Rightarrow> world" where
  "connection_create userId deviceId ipAddress now w =
     record_effect (Store ConnectionTable Create)
       (w\<lparr>connections := connections w @
              [\<lparr>c_id = nextId w, c_userId = userId, c_deviceId = deviceId,
                c_ipAddress = ipAddress, c_startTime = now, c_endTime = None,
                c_isActive = True\<rparr>],
          nextId := Suc (nextId w)\<rparr>)"

definition connection_updateMany :: "(connection \<Rightarrow> bool) \<Rightarrow> time \<Rightarrow> world \<Rightarrow> world" where
  "connection_updateMany cond now w =
     record_effect (Store ConnectionTable UpdateMany)
       (w\<lparr>connections :=
            map (\<lambda>c. if cond c then c\<lparr>c_isActive := False, c_endTime := Some now\<rparr> else c)
              (connections w)\<rparr>)"

definition auditLog_create ::
  "string \<Rightarrow> ident \<Rightarrow> request \<Rightarrow> details \<Rightarrow> world \<Rightarrow> world" where
  "auditLog_create action userId req det w =
     record_effect (Store AuditLogTable Create)
       (w\<lparr>auditLogs := auditLogs w @
            [\<lparr>a_action = action, a_userId = userId, a_ipAddress = req_ip req,
              a_userAgent = req_userAgent req, a_details = det\<rparr>]\<rparr>)"

section \<open>Credentials\<close>

definition comparePassword :: "env \<Rightarrow> string \<Rightarrow> string \<Rightarrow> bool" where
  "comparePassword e password hashedPassword = bcrypt_compare e password hashedPassword"

text \<open>
  jwt.sign throws (None) when the secret is missing or empty and when it cannot read the
  lifetime; iat is the current second.
\<close>

definition jwt_sign :: "env \<Rightarrow> ident \<Rightarrow> string \<Rightarrow> string \<Rightarrow> time \<Rightarrow> token option" where
  "jwt_sign e userId secret expiresIn now =
     (if secret = [] then None
      else (case timespan_seconds e expiresIn of
              None \<Rightarrow> None
            | Some span \<Rightarrow>
                Some (Jwt secret userId (now div 1000) (int (now div 1000) + span))))"

definition jwt_verify :: "token \<Rightarrow> string \<Rightarrow> time \<Rightarrow> jwt_error + ident" where
  "jwt_verify tok secret now =
     (if secret = [] then Inl JsonWebTokenError
      else (case tok of
              Opaque text \<Rightarrow> Inl JsonWebTokenError
            | Jwt key userId iat exp \<Rightarrow>
                if key \<noteq> secret then Inl JsonWebTokenError
                else if exp \<le> int (now div 1000) then Inl TokenExpiredError
                else Inr userId))"

text \<open>\<^verbatim>\<open>process.env.X || fallback\<close>: an unset and an empty variable give the fallback.\<close>

definition or_default :: "string option \<Rightarrow> string \<Rightarrow> string" where
  "or_default var fallback =
     (case var of None \<Rightarrow> fallback | Some s \<Rightarrow> if s = [] then fallback else s)"

definition generateTokens :: "env \<Rightarrow> ident \<Rightarrow> time \<Rightarrow> (token \<times> token) option" where
  "generateTokens e userId now =
     (case jwt_sign e userId (JWT_SECRET e) (or_default (JWT_EXPIRES_IN e) ''15m'') now of
        None \<Rightarrow> None
      | Some accessToken \<Rightarrow>
          (case jwt_sign e userId (JWT_REFRESH_SECRET e)
                  (or_default (JWT_REFRESH_EXPIRES_IN e) ''7d'') now of
             None \<Rightarrow> None
           | Some refreshToken \<Rightarrow> Some (accessToken, refreshToken)))"

definition verifyRefreshToken :: "env \<Rightarrow> token \<Rightarrow> time \<Rightarrow> jwt_error + ident" where
  "verifyRefreshToken e tok now = jwt_verify tok (JWT_REFRESH_SECRET e) now"

text \<open>\<^verbatim>\<open>parseInt(process.env.MAX_DEVICES_PER_USER) || 4\<close>: NaN and 0 both give 4.\<close>

definition maxDevices :: "env \<Rightarrow> int" where
  "maxDevices e =
     (case MAX_DEVICES_PER_USER e of None \<Rightarrow> 4 | Some n \<Rightarrow> if n = 0 then 4 else n)"

section \<open>Request validation\<close>

text \<open>
  The validate middleware with a schema of required strings: every field is checked
  (abortEarly is off) and each failure gives the field and a message. A required string
  must be present, be a string and not be empty.
\<close>

definition quoted :: "string \<Rightarrow> string" where
  "quoted label = CHR 0x22 # label @ [CHR 0x22]"

definition required_string ::
  "string \<Rightarrow> string \<Rightarrow> ('a \<Rightarrow> bool) \<Rightarrow> 'a json \<Rightarrow> (string \<times> string) list" where
  "required_string field required_message is_empty v =
     (case v of
        Undefined \<Rightarrow> [(field, required_message)]
      | Null \<Rightarrow> [(field, quoted field @ '' must be a string'')]
      | NonString truthy \<Rightarrow> [(field, quoted field @ '' must be a string'')]
      | Str x \<Rightarrow>
          if is_empty x then [(field, quoted field @ '' is not allowed to be empty'')] else [])"

definition loginSchema :: "string json \<Rightarrow> string json \<Rightarrow> (string \<times> string) list" where
  "loginSchema login_field password_field =
     required_string ''login'' ''Email or username is required'' (\<lambda>s. s = []) login_field
     @ required_string ''password'' ''Password is required'' (\<lambda>s. s = []) password_field"

definition refreshTokenSchema :: "token json \<Rightarrow> (string \<times> string) list" where
  "refreshTokenSchema refreshToken_field =
     required_string ''refreshToken'' ''Refresh token is required'' (\<lambda>t. t = Opaque [])
       refreshToken_field"

section \<open>The authentication routes\<close>

definition user_findFirst :: "string \<Rightarrow> world \<Rightarrow> user option" where
  "user_findFirst login w =
     find (\<lambda>u. (u_email u = login \<or> u_username u = login) \<and> u_isActive u) (users w)"

definition user_findUnique :: "ident \<Rightarrow> world \<Rightarrow> user option" where
  "user_findUnique userId w = find (\<lambda>u. u_id u = userId) (users w)"

text \<open>
  The second half of the login handler, from the token generation on: the session row, the
  whitelist entry (a failure is logged and ignored), the connection row, the audit entry.
  A token that cannot be signed and a refused session row end the request with an error
  reply, after the device has been written.
\<close>

definition login_grant ::
  "env \<Rightarrow> (shell \<Rightarrow> bool) \<Rightarrow> time \<Rightarrow> request \<Rightarrow> user \<Rightarrow> deviceInfo \<Rightarrow> device \<Rightarrow> world
     \<Rightarrow> reply \<times> world" where
  "login_grant e fails now req user deviceInfo device w =
     (case generateTokens e (u_id user) now of
        None \<Rightarrow> ((500, Error ''Internal server error''), w)
      | Some (accessToken, refreshToken) \<Rightarrow>
          (let expiresAt = days_later e 7 now;
               (stored, w1) = session_create refreshToken (u_id user) expiresAt w
           in if \<not> stored then ((409, DuplicateEntry ''refreshToken''), w1)
              else
                (let (whitelisted, w2) =
                       addDeviceToWhitelist fails (di_macAddress deviceInfo) (req_ip req) w1;
                     w3 = connection_create (u_id user) (d_id device) (req_ip req) now w2;
                     w4 = auditLog_create ''LOGIN'' (u_id user) req
                            (DeviceDetails (d_id device) (di_macAddress deviceInfo)) w3
                 in ((200, LoginSuccessful accessToken refreshToken
                            \<lparr>uv_id = u_id user, uv_email = u_email user,
                             uv_username = u_username user, uv_firstName = u_firstName user,
                             uv_lastName = u_lastName user, uv_isAdmin = u_isAdmin user\<rparr>
                            \<lparr>dv_id = d_id device, dv_name = d_deviceName device,
                             dv_macAddress = d_macAddress device\<rparr>), w4))))"

text \<open>
  What the login handler writes into a device it finds: the address, the last-seen time and
  the active flag always, the client signature only when the request has the header (the
  store leaves a column alone when the value given for it is undefined).
\<close>

definition refresh_device :: "request \<Rightarrow> time \<Rightarrow> device \<Rightarrow> device" where
  "refresh_device req now d =
     d\<lparr>d_ipAddress := req_ip req,
       d_userAgent := (case req_userAgent req of None \<Rightarrow> d_userAgent d | Some ua \<Rightarrow> Some ua),
       d_lastSeen := now, d_isActive := True\<rparr>"

text \<open>The login handler proper, on a body that has passed the validation.\<close>

definition login_handler ::
  "env \<Rightarrow> (shell \<Rightarrow> bool) \<Rightarrow> time \<Rightarrow> request \<Rightarrow> string \<Rightarrow> string \<Rightarrow> world
     \<Rightarrow> reply \<times> world" where
  "login_handler e fails now req login_name password w =
     (case user_findFirst login_name w of
        None \<Rightarrow> ((401, Error ''Invalid credentials''), w)
      | Some user \<Rightarrow>
          if \<not> comparePassword e password (u_password user)
          then ((401, Error ''Invalid credentials''), w)
          else
            (let deviceInfo = getDeviceInfo e req;
                 activeDevicesCount = device_count (u_id user) w;
                 found = device_findUnique (di_macAddress deviceInfo) w
             in if found = None \<and> maxDevices e \<le> int activeDevicesCount
                then ((403, DeviceLimitReached (maxDevices e) activeDevicesCount (maxDevices e)),
                      w)
                else
                  (case found of
                     None \<Rightarrow>
                       (let (device, w1) =
                              device_create (di_macAddress deviceInfo) (req_ip req)
                                (di_deviceName deviceInfo) (req_userAgent req) (u_id user) now w
                        in login_grant e fails now req user deviceInfo device w1)
                   | Some existing \<Rightarrow>
                       (let w1 = device_update (d_id existing) (refresh_device req now) w
                        in login_grant e fails now req user deviceInfo
                             (refresh_device req now existing) w1))))"

text \<open>The login route: the validation of the body, then the handler.\<close>

definition login ::
  "env \<Rightarrow> (shell \<Rightarrow> bool) \<Rightarrow> time \<Rightarrow> request \<Rightarrow> string json \<Rightarrow> string json \<Rightarrow> world
     \<Rightarrow> reply \<times> world" where
  "login e fails now req login_field password_field w =
     (case (loginSchema login_field password_field, login_field, password_field) of
        ([], Str login_name, Str password) \<Rightarrow> login_handler e fails now req login_name password w
      | (errors, _, _) \<Rightarrow> ((400, ValidationFailed errors), w))"

text \<open>The refresh handler. An included user that is missing makes the handler throw.\<close>

definition refresh_handler :: "env \<Rightarrow> time \<Rightarrow> token \<Rightarrow> world \<Rightarrow> reply \<times> world" where
  "refresh_handler e now refreshToken w =
     (case session_findUnique refreshToken now w of
        None \<Rightarrow> ((401, Error ''Invalid or expired refresh token''), w)
      | Some session \<Rightarrow>
          (case verifyRefreshToken e refreshToken now of
             Inl err \<Rightarrow>
               ((401, Error ''Invalid refresh token''), session_deactivate (s_id session) w)
           | Inr payload \<Rightarrow>
               (case user_findUnique (s_userId session) w of
                  None \<Rightarrow> ((500, Error ''Internal server error''), w)
                | Some user \<Rightarrow>
                    if \<not> u_isActive user
                    then ((401, Error ''User account is inactive''), w)
                    else
                      (case generateTokens e (u_id user) now of
                         None \<Rightarrow> ((500, Error ''Internal server error''), w)
                       | Some (accessToken, newRefreshToken) \<Rightarrow>
                           (let newExpiresAt = days_later e 7 now;
                                (stored, w1) =
                                  session_rotate (s_id session) newRefreshToken newExpiresAt w
                            in if \<not> stored then ((409, DuplicateEntry ''refreshToken''), w1)
                               else ((200, Tokens accessToken newRefreshToken), w1))))))"

definition refresh :: "env \<Rightarrow> time \<Rightarrow> token json \<Rightarrow> world \<Rightarrow> reply \<times> world" where
  "refresh e now refreshToken_field w =
     (case (refreshTokenSchema refreshToken_field, refreshToken_field) of
        ([], Str refreshToken) \<Rightarrow> refresh_handler e now refreshToken w
      | (errors, _) \<Rightarrow> ((400, ValidationFailed errors), w))"

text \<open>
  The logout handler. \<open>refreshToken\<close> is the refresh token of the body when that field is a
  string; it is used when it is not the empty string. The bearer token only decides
  whether an audit entry is written.
\<close>

definition logout :: "env \<Rightarrow> time \<Rightarrow> request \<Rightarrow> token option \<Rightarrow> world \<Rightarrow> reply \<times> world" where
  "logout e now req refreshToken w =
     (let w1 = (case refreshToken of
                  None \<Rightarrow> w
                | Some tok \<Rightarrow>
                    if tok = Opaque [] then w
                    else session_updateMany (\<lambda>s. s_refreshToken s = tok) w);
          w2 = (case req_authorization req of
                  Some (Bearer tok) \<Rightarrow>
                    (case jwt_verify tok (JWT_SECRET e) now of
                       Inl err \<Rightarrow> w1
                     | Inr userId \<Rightarrow>
                         (case user_findUnique userId w1 of
                            None \<Rightarrow> w1
                          | Some user \<Rightarrow> auditLog_create ''LOGOUT'' (u_id user) req NoDetails w1))
                | _ \<Rightarrow> w1)
      in ((200, Message ''Logout successful''), w2))"

section \<open>The device routes\<close>

text \<open>
  Every handler below runs behind the authentication middleware; \<open>requester\<close> is the user
  it attached to the request.
\<close>

text \<open>
  The white space String.prototype.trim removes, each character by its UTF-8 bytes: tab,
  line feed, vertical tab, form feed, carriage return, space, U+00A0, U+1680, U+2000 to
  U+200A, U+2028, U+2029, U+202F, U+205F, U+3000 and U+FEFF.
\<close>

definition white_space :: "string list" where
  "white_space =
     [[CHR 0x09], [CHR 0x0A], [CHR 0x0B], [CHR 0x0C], [CHR 0x0D], [CHR 0x20],
      [CHR 0xC2, CHR 0xA0],
      [CHR 0xE1, CHR 0x9A, CHR 0x80],
      [CHR 0xE2, CHR 0x80, CHR 0x80], [CHR 0xE2, CHR 0x80, CHR 0x81],
      [CHR 0xE2, CHR 0x80, CHR 0x82], [CHR 0xE2, CHR 0x80, CHR 0x83],
      [CHR 0xE2, CHR 0x80, CHR 0x84], [CHR 0xE2, CHR 0x80, CHR 0x85],
      [CHR 0xE2, CHR 0x80, CHR 0x86], [CHR 0xE2, CHR 0x80, CHR 0x87],
      [CHR 0xE2, CHR 0x80, CHR 0x88], [CHR 0xE2, CHR 0x80, CHR 0x89],
      [CHR 0xE2, CHR 0x80, CHR 0x8A],
      [CHR 0xE2, CHR 0x80, CHR 0xA8], [CHR 0xE2, CHR 0x80, CHR 0xA9],
      [CHR 0xE2, CHR 0x80, CHR 0xAF],
      [CHR 0xE2, CHR 0x81, CHR 0x9F],
      [CHR 0xE3, CHR 0x80, CHR 0x80],
      [CHR 0xEF, CHR 0xBB, CHR 0xBF]]"

text \<open>Removing, from the front of a string, every leading occurrence of one of the marks.\<close>

function strip :: "string list \<Rightarrow> string \<Rightarrow> string" where
  "strip marks s =
     (case find (\<lambda>m. m \<noteq> [] \<and> startsWith s m) marks of
        None \<Rightarrow> s
      | Some m \<Rightarrow> strip marks (drop (length m) s))"
  by pat_completeness auto
termination
proof (relation "measure (\<lambda>(marks, s). length s)")
  show "wf (measure (\<lambda>(marks, s). length s))" by simp
next
  fix marks :: "string list" and s m :: string
  assume "find (\<lambda>m. m \<noteq> [] \<and> startsWith s m) marks = Some m"
  then have m: "m \<noteq> []" "startsWith s m"
    by (auto simp: find_Some_iff)
  have "startsWith t p \<Longrightarrow> length p \<le> length t" for t p
    by (induction t p rule: startsWith.induct) auto
  with m have "length m \<le> length s" by auto
  with m(1) show "((marks, drop (length m) s), (marks, s)) \<in> measure (\<lambda>(marks, s). length s)"
    by (cases m) auto
qed

declare strip.simps [simp del]

definition trim :: "string \<Rightarrow> string" where
  "trim s = rev (strip (map rev white_space) (rev (strip white_space s)))"

definition newest_first :: "connection list \<Rightarrow> connection list" where
  "newest_first cs = rev (sort_key c_startTime cs)"

definition device_detail :: "user \<Rightarrow> ident \<Rightarrow> world \<Rightarrow> reply \<times> world" where
  "device_detail requester deviceId w =
     (case device_findFirst deviceId (u_id requester) w of
        None \<Rightarrow> ((404, Error ''Device not found''), w)
      | Some device \<Rightarrow>
          ((200, DeviceWithConnections device
                   (take 10 (newest_first
                      (filter (\<lambda>c. c_deviceId c = d_id device) (connections w))))), w))"

text \<open>
  The name of the request body is required: a falsy name (absent, null, false, zero, the
  empty string) and a string that is blank after trimming are refused before the device is
  looked up. Any other value that is not a string has no trim method, and the handler
  throws.
\<close>

definition device_rename :: "user \<Rightarrow> ident \<Rightarrow> string json \<Rightarrow> world \<Rightarrow> reply \<times> world" where
  "device_rename requester deviceId deviceName w =
     (case deviceName of
        Undefined \<Rightarrow> ((400, Error ''Device name is required''), w)
      | Null \<Rightarrow> ((400, Error ''Device name is required''), w)
      | NonString truthy \<Rightarrow>
          if truthy then ((500, Error ''Internal server error''), w)
          else ((400, Error ''Device name is required''), w)
      | Str name \<Rightarrow>
          if name = [] \<or> length (trim name) = 0
          then ((400, Error ''Device name is required''), w)
          else
            (case device_findFirst deviceId (u_id requester) w of
               None \<Rightarrow> ((404, Error ''Device not found''), w)
             | Some device \<Rightarrow>
                 (let change = (\<lambda>d. d\<lparr>d_deviceName := trim name\<rparr>);
                      w1 = device_update deviceId change w
                  in ((200, DeviceUpdated (change device)), w1))))"

definition device_disconnect ::
  "(shell \<Rightarrow> bool) \<Rightarrow> time \<Rightarrow> request \<Rightarrow> user \<Rightarrow> ident \<Rightarrow> world \<Rightarrow> reply \<times> world" where
  "device_disconnect fails now req requester deviceId w =
     (case device_findFirst deviceId (u_id requester) w of
        None \<Rightarrow> ((404, Error ''Device not found''), w)
      | Some device \<Rightarrow>
          (let (removed, w1) =
                 removeDeviceFromWhitelist fails (d_macAddress device) (d_ipAddress device) w;
               w2 = device_update deviceId (\<lambda>d. d\<lparr>d_isActive := False\<rparr>) w1;
               w3 = connection_updateMany (\<lambda>c. c_deviceId c = deviceId \<and> c_isActive c) now w2;
               w4 = auditLog_create ''DEVICE_DISCONNECT'' (u_id requester) req
                      (DeviceDetails deviceId (d_macAddress device)) w3
           in ((200, Message ''Device disconnected successfully''), w4)))"

definition device_remove ::
  "(shell \<Rightarrow> bool) \<Rightarrow> request \<Rightarrow> user \<Rightarrow> ident \<Rightarrow> world \<Rightarrow> reply \<times> world" where
  "device_remove fails req requester deviceId w =
     (case device_findFirst deviceId (u_id requester) w of
        None \<Rightarrow> ((404, Error ''Device not found''), w)
      | Some device \<Rightarrow>
          (let (removed, w1) =
                 removeDeviceFromWhitelist fails (d_macAddress device) (d_ipAddress device) w;
               w2 = device_delete deviceId w1;
               w3 = auditLog_create ''DEVICE_DELETE'' (u_id requester) req
                      (DeviceDetails deviceId (d_macAddress device)) w2
           in ((200, Message ''Device deleted successfully''), w3)))"

text \<open>
  The connection history, paged: \<open>page\<close> and \<open>limit\<close> are the query parameters as parseInt
  reads them (None when absent or not a number), with 0 replaced by the default as well.
\<close>

definition device_connections ::
  "user \<Rightarrow> ident \<Rightarrow> nat option \<Rightarrow> nat option \<Rightarrow> world \<Rightarrow> reply \<times> world" where
  "device_connections requester deviceId page_param limit_param w =
     (let page = (case page_param of None \<Rightarrow> 1 | Some n \<Rightarrow> if n = 0 then 1 else n);
          limit = (case limit_param of None \<Rightarrow> 20 | Some n \<Rightarrow> if n = 0 then 20 else n);
          skip = (page - 1) * limit
      in case device_findFirst deviceId (u_id requester) w of
           None \<Rightarrow> ((404, Error ''Device not found''), w)
         | Some device \<Rightarrow>
             (let matching = filter (\<lambda>c. c_deviceId c = deviceId) (connections w)
              in ((200, ConnectionPage (take limit (drop skip (newest_first matching)))
                          page limit (length matching)), w)))"

section \<open>The network routes\<close>




section \<open>Reference points for the properties\<close>

text \<open>
  The FORWARD chain initializeCaptivePortal is expected to leave: the accept rules in the
  reverse of their insertion order (each is inserted at the head), then the appended drop.
\<close>

definition base_rules :: "rule list" where
  "base_rules =
     [([Protocol ''tcp'', DestPort 5000], ACCEPT),
      ([Protocol ''tcp'', DestPort 443], ACCEPT),
      ([Protocol ''tcp'', DestPort 80], ACCEPT),
      ([Protocol ''tcp'', DestPort 53], ACCEPT),
      ([Protocol ''udp'', DestPort 53], ACCEPT),
      ([ConnState ''ESTABLISHED,RELATED''], ACCEPT),
      ([OutInterface ''lo''], ACCEPT),
      ([InInterface ''lo''], ACCEPT),
      ([], DROP)]"

text \<open>
  The commands one removal from the whitelist starts: the address rule is only attempted
  when the command for the hardware-address rule did not reject.
\<close>

definition removal_commands :: "(shell \<Rightarrow> bool) \<Rightarrow> string \<Rightarrow> string \<Rightarrow> effect list" where
  "removal_commands fails macAddress ipAddress =
     Shell (RunOrTrue (Delete FORWARD (mac_rule macAddress))) #
     (if fails (RunOrTrue (Delete FORWARD (mac_rule macAddress))) then []
      else [Shell (RunOrTrue (Delete FORWARD (ip_rule ipAddress)))])"


section \<open>A small installation\<close>

text \<open>
  Two users, two client machines and the states a few requests lead to. The server runs in
  UTC and the quota is configured to one device. The tables give the libraries at the
  values the examples use: the MD5 digests of the two strings the machines hash, the
  bcrypt hashes of the two passwords (cost 12), and the two default lifetimes.
\<close>

definition md5_table :: "string \<Rightarrow> string" where
  "md5_table s =
     (if s = ''10.0.0.5Firefox'' then ''75712482ef74f13f7d0076a02e9c2034''
      else if s = ''10.0.0.6Safari'' then ''d09fbd12aa70ac443f3aec83da1db03f''
      else [])"

definition alice_hash :: string where
  "alice_hash = ''$2a$12$N9qo8uLOickgx2ZMRZoMyePAVS5iuxQBmzXeRKNaipebPNz6eb0Au''"

definition bob_hash :: string where
  "bob_hash = ''$2a$12$7hJxkQ0mC2bW8y4x1lYp9OLifPLgYK6o1agKusdYb6UJFxXVbphXm''"

definition bcrypt_table :: "string \<Rightarrow> string \<Rightarrow> bool" where
  "bcrypt_table password hashedPassword =
     (password = ''Alice@123456'' \<and> hashedPassword = alice_hash
      \<or> password = ''Bob@1234567'' \<and> hashedPassword = bob_hash)"

definition timespan_table :: "string \<Rightarrow> int option" where
  "timespan_table s =
     (if s = ''15m'' then Some 900 else if s = ''7d'' then Some 604800 else None)"

definition utc_days_later :: "nat \<Rightarrow> time \<Rightarrow> time" where
  "utc_days_later n t = t + n * 86400000"

definition demo_env :: env where
  "demo_env = \<lparr>MAX_DEVICES_PER_USER = Some 1, JWT_SECRET = ''access-secret'',
     JWT_REFRESH_SECRET = ''refresh-secret'', JWT_EXPIRES_IN = None,
     JWT_REFRESH_EXPIRES_IN = None, md5_hex = md5_table, bcrypt_compare = bcrypt_table,
     timespan_seconds = timespan_table, days_later = utc_days_later\<rparr>"

definition alice :: user where
  "alice = \<lparr>u_id = 1, u_email = ''alice@example.com'', u_username = ''alice'',
     u_password = alice_hash, u_firstName = None, u_lastName = None,
     u_isActive = True, u_isAdmin = False\<rparr>"

definition bob :: user where
  "bob = \<lparr>u_id = 2, u_email = ''bob@example.com'', u_username = ''bob'',
     u_password = bob_hash, u_firstName = None, u_lastName = None,
     u_isActive = True, u_isAdmin = True\<rparr>"

definition phone :: request where
  "phone = \<lparr>req_ip = ''10.0.0.5'', req_remoteAddress = ''10.0.0.5'',
     req_userAgent = Some ''Firefox'', req_forwardedFor = None, req_authorization = None\<rparr>"

definition laptop :: request where
  "laptop = \<lparr>req_ip = ''10.0.0.6'', req_remoteAddress = ''10.0.0.6'',
     req_userAgent = Some ''Safari'', req_forwardedFor = None, req_authorization = None\<rparr>"

definition no_failure :: "shell \<Rightarrow> bool" where
  "no_failure cmd = False"

definition world0 :: world where
  "world0 = \<lparr>users = [alice, bob], devices = [], sessions = [], connections = [],
     auditLogs = [], filter_state = \<lparr>forward = [], nat_prerouting = [], nat_postrouting = []\<rparr>,
     nextId = 3, trace = []\<rparr>"

text \<open>The state after alice has logged in from the phone at time 1000.\<close>

definition alice_phone :: device where
  "alice_phone = \<lparr>d_id = 3, d_macAddress = ''75:71:24:82:ef:74'', d_ipAddress = ''10.0.0.5'',
     d_deviceName = ''Unknown Device'', d_userAgent = Some ''Firefox'', d_userId = 1,
     d_lastSeen = 1000, d_isActive = True\<rparr>"

definition alice_token :: token where
  "alice_token = Jwt ''refresh-secret'' 1 1 604801"

definition world1 :: world where
  "world1 = \<lparr>users = [alice, bob], devices = [alice_phone],
     sessions = [\<lparr>s_id = 4, s_refreshToken = alice_token, s_userId = 1,
                  s_expiresAt = 604801000, s_isActive = True\<rparr>],
     connections = [\<lparr>c_id = 5, c_userId = 1, c_deviceId = 3, c_ipAddress = ''10.0.0.5'',
                     c_startTime = 1000, c_endTime = None, c_isActive = True\<rparr>],
     auditLogs = [\<lparr>a_action = ''LOGIN'', a_userId = 1, a_ipAddress = ''10.0.0.5'',
                   a_userAgent = Some ''Firefox'',
                   a_details = DeviceDetails 3 ''75:71:24:82:ef:74''\<rparr>],
     filter_state = \<lparr>forward = [([SourceAddr ''10.0.0.5''], ACCEPT),
                                 ([MacSource ''75:71:24:82:ef:74''], ACCEPT)],
                      nat_prerouting = [], nat_postrouting = []\<rparr>,
     nextId = 6,
     trace = [Store DeviceTable Create, Store SessionTable Create,
              Shell (Run (Check FORWARD ([MacSource ''75:71:24:82:ef:74''], ACCEPT))),
              Shell (Run (Insert FORWARD ([MacSource ''75:71:24:82:ef:74''], ACCEPT))),
              Shell (Run (Insert FORWARD ([SourceAddr ''10.0.0.5''], ACCEPT))),
              Store ConnectionTable Create, Store AuditLogTable Create]\<rparr>"

text \<open>The state after bob has then logged in from the laptop at time 2000.\<close>

definition bob_laptop :: device where
  "bob_laptop = \<lparr>d_id = 6, d_macAddress = ''d0:9f:bd:12:aa:70'', d_ipAddress = ''10.0.0.6'',
     d_deviceName = ''Unknown Device'', d_userAgent = Some ''Safari'', d_userId = 2,
     d_lastSeen = 2000, d_isActive = True\<rparr>"

definition world2 :: world where
  "world2 = world1\<lparr>devices := [alice_phone, bob_laptop],
     sessions := sessions world1 @
       [\<lparr>s_id = 7, s_refreshToken = Jwt ''refresh-secret'' 2 2 604802, s_userId = 2,
         s_expiresAt = 604802000, s_isActive = True\<rparr>],
     connections := connections world1 @
       [\<lparr>c_id = 8, c_userId = 2, c_deviceId = 6, c_ipAddress = ''10.0.0.6'',
         c_startTime = 2000, c_endTime = None, c_isActive = True\<rparr>],
     auditLogs := auditLogs world1 @
       [\<lparr>a_action = ''LOGIN'', a_userId = 2, a_ipAddress = ''10.0.0.6'',
         a_userAgent = Some ''Safari'', a_details = DeviceDetails 6 ''d0:9f:bd:12:aa:70''\<rparr>],
     filter_state := \<lparr>forward = [([SourceAddr ''10.0.0.6''], ACCEPT),
                                  ([MacSource ''d0:9f:bd:12:aa:70''], ACCEPT),
                                  ([SourceAddr ''10.0.0.5''], ACCEPT),
                                  ([MacSource ''75:71:24:82:ef:74''], ACCEPT)],
                       nat_prerouting = [], nat_postrouting = []\<rparr>,
     nextId := 9,
     trace := trace world1 @
       [Store DeviceTable Create, Store SessionTable Create,
        Shell (Run (Check FORWARD ([MacSource ''d0:9f:bd:12:aa:70''], ACCEPT))),
        Shell (Run (Insert FORWARD ([MacSource ''d0:9f:bd:12:aa:70''], ACCEPT))),
        Shell (Run (Insert FORWARD ([SourceAddr ''10.0.0.6''], ACCEPT))),
        Store ConnectionTable Create, Store AuditLogTable Create]\<rparr>"

text \<open>
  Alice alone: her phone is disconnected at 2000, she logs in from the laptop at 3000 and
  from the phone again at 4000.
\<close>

definition after_disconnect :: world where
  "after_disconnect = snd (device_disconnect no_failure 2000 phone alice 3 world1)"

definition after_second_device :: world where
  "after_second_device =
     snd (login demo_env no_failure 3000 laptop (Str ''alice'') (Str ''Alice@123456'')
            after_disconnect)"

definition after_relogin :: world where
  "after_relogin =
     snd (login demo_env no_failure 4000 phone (Str ''alice'') (Str ''Alice@123456'')
            after_second_device)"

text \<open>
  Alice's session of \<open>world1\<close> refreshed at 1500, within the second in which her credential
  was signed.
\<close>

definition same_second :: world where
  "same_second = snd (refresh demo_env 1500 (Str alice_token) world1)"

text \<open>Alice logged out of \<open>world1\<close> at 2000, presenting her refresh token.\<close>

definition logged_out :: world where
  "logged_out = snd (logout demo_env 2000 phone (Some alice_token) world1)"


definition phone_fails :: "shell \<Rightarrow> bool" where
  "phone_fails cmd = (cmd = RunOrTrue (Delete FORWARD (mac_rule ''75:71:24:82:ef:74'')))"

definition drop_fails :: "shell \<Rightarrow> bool" where
  "drop_fails cmd = (cmd = Run (Append FORWARD ([], DROP)))"

text \<open>
  A state in which alice has two active devices and an inactive one, and bob one active
  device; none of them has the fingerprint of the laptop.
\<close>

definition crowded :: world where
  "crowded = world1\<lparr>devices :=
     [alice_phone,
      \<lparr>d_id = 20, d_macAddress = ''02:00:00:00:00:01'', d_ipAddress = ''10.0.0.21'',
        d_deviceName = ''Mac'', d_userAgent = None, d_userId = 1, d_lastSeen = 500,
        d_isActive = True\<rparr>,
      \<lparr>d_id = 21, d_macAddress = ''02:00:00:00:00:02'', d_ipAddress = ''10.0.0.22'',
        d_deviceName = ''iPad'', d_userAgent = None, d_userId = 1, d_lastSeen = 400,
        d_isActive = False\<rparr>,
      \<lparr>d_id = 22, d_macAddress = ''02:00:00:00:00:03'', d_ipAddress = ''10.0.0.23'',
        d_deviceName = ''Linux Device'', d_userAgent = None, d_userId = 2, d_lastSeen = 300,
        d_isActive = True\<rparr>],
     nextId := 23\<rparr>"

section \<open>Evaluation rules\<close>

lemmas installation =
  md5_table_def alice_hash_def bob_hash_def bcrypt_table_def timespan_table_def
  utc_days_later_def demo_env_def alice_def bob_def phone_def laptop_def no_failure_def
  world0_def alice_phone_def alice_token_def world1_def bob_laptop_def world2_def

lemmas store_ops =
  device_count_def device_findUnique_def device_findFirst_def device_create_def
  device_update_def device_updateMany_def device_delete_def session_create_def
  session_findUnique_def session_deactivate_def session_rotate_def session_updateMany_def
  connection_create_def connection_updateMany_def auditLog_create_def user_findFirst_def
  user_findUnique_def record_effect_def

lemmas firewall_ops =
  execAsync_def addDeviceToWhitelist_def removeDeviceFromWhitelist_def mac_rule_def ip_rule_def

lemmas credential_ops =
  comparePassword_def jwt_sign_def jwt_verify_def or_default_def generateTokens_def
  verifyRefreshToken_def maxDevices_def getDeviceInfo_def toLowerCase_def

lemmas validation =
  quoted_def required_string_def loginSchema_def refreshTokenSchema_def

lemmas handlers =
  login_def login_handler_def login_grant_def refresh_device_def refresh_def
  refresh_handler_def logout_def device_disconnect_def Let_def

section \<open>The installation is reachable\<close>

lemma world1_reached:
  "snd (login demo_env no_failure 1000 phone (Str ''alice'') (Str ''Alice@123456'') world0)
     = world1"
  by (simp add: installation store_ops firewall_ops credential_ops validation handlers)

lemma world2_reached:
  "snd (login demo_env no_failure 2000 laptop (Str ''bob'') (Str ''Bob@1234567'') world1)
     = world2"
  by (simp add: installation store_ops firewall_ops credential_ops validation handlers)

lemma login_validated:
  "login_name \<noteq> [] \<Longrightarrow> password \<noteq> [] \<Longrightarrow>
     login e fails now req (Str login_name) (Str password) w
       = login_handler e fails now req login_name password w"
  by (simp add: login_def loginSchema_def required_string_def)

section \<open>Failed authentication\<close>

text \<open>
  C9, as amended. Of two login requests whose bodies pass the validation (identifier and
  secret are strings and not empty), one with an identifier that matches no active user
  and one with a known identifier and a wrong password, both get the same reply, status
  401 with the error "Invalid credentials", and neither changes the state: the reply does
  not tell which of the two fields was wrong.
\<close>

theorem login_failures_indistinguishable:
  assumes "login1 \<noteq> []" and "password1 \<noteq> []" and "login2 \<noteq> []" and "password2 \<noteq> []"
    and "user_findFirst login1 w1 = None"
    and "user_findFirst login2 w2 = Some u"
    and "\<not> comparePassword e2 password2 (u_password u)"
  shows "fst (login e1 fails1 now1 req1 (Str login1) (Str password1) w1)
           = (401, Error ''Invalid credentials'')
       \<and> fst (login e2 fails2 now2 req2 (Str login2) (Str password2) w2)
           = fst (login e1 fails1 now1 req1 (Str login1) (Str password1) w1)
       \<and> snd (login e1 fails1 now1 req1 (Str login1) (Str password1) w1) = w1
       \<and> snd (login e2 fails2 now2 req2 (Str login2) (Str password2) w2) = w2"
  using assms by (simp add: login_validated login_handler_def)

theorem login_failures_indistinguishable_witness:
  "user_findFirst ''mallory'' world1 = None
   \<and> user_findFirst ''alice'' world1 = Some alice
   \<and> \<not> comparePassword demo_env ''guess'' (u_password alice)
   \<and> fst (login demo_env no_failure 1000 phone (Str ''mallory'') (Str ''guess'') world1)
       = (401, Error ''Invalid credentials'')
   \<and> fst (login demo_env no_failure 2000 laptop (Str ''alice'') (Str ''guess'') world1)
       = fst (login demo_env no_failure 1000 phone (Str ''mallory'') (Str ''guess'') world1)"
proof -
  have a: "user_findFirst ''mallory'' world1 = None"
    by (simp add: user_findFirst_def world1_def alice_def bob_def)
  have b: "user_findFirst ''alice'' world1 = Some alice"
    by (simp add: user_findFirst_def world1_def alice_def bob_def)
  have c: "\<not> comparePassword demo_env ''guess'' (u_password alice)"
    by (simp add: comparePassword_def demo_env_def bcrypt_table_def alice_def)
  have n: "''mallory'' \<noteq> []" "''guess'' \<noteq> []" "''alice'' \<noteq> []" by simp_all
  from login_failures_indistinguishable [OF n(1) n(2) n(3) n(2) a b c, where ?e1.0 = demo_env
      and ?fails1.0 = no_failure and ?now1.0 = 1000 and ?req1.0 = phone
      and ?fails2.0 = no_failure and ?now2.0 = 2000 and ?req2.0 = laptop] a b c
  show ?thesis by simp
qed

text \<open>
  C9 as stated fails: a known identifier with the empty string as secret does not reach the
  password check; the validation answers 400 and names the password field, where an
  unknown identifier gets 401.
\<close>

theorem empty_secret_is_a_validation_error:
  "user_findFirst ''mallory'' world1 = None
   \<and> login demo_env no_failure 1000 phone (Str ''mallory'') (Str ''guess'') world1
       = ((401, Error ''Invalid credentials''), world1)
   \<and> user_findFirst ''alice'' world1 = Some alice
   \<and> \<not> comparePassword demo_env [] (u_password alice)
   \<and> login demo_env no_failure 2000 phone (Str ''alice'') (Str []) world1
       = ((400, ValidationFailed
                  [(''password'', quoted ''password'' @ '' is not allowed to be empty'')]),
          world1)"
  by (simp add: installation store_ops credential_ops validation handlers)

section \<open>The quota rejection\<close>

text \<open>
  C4, as amended. A login that passes the validation and authenticates, finds no device
  record with the request's fingerprint, whoever owns it, and finds the number of the
  user's active devices at or above the maximum (the configured number, 4 when it is
  unset, unreadable or zero) is answered with status 403 and a body carrying that number
  of active devices and that maximum; the state is the one before the request, so no
  token was issued and no device, session or connection row was written.
\<close>

theorem login_quota_rejection:
  assumes "login_name \<noteq> []" and "password \<noteq> []"
    and "user_findFirst login_name w = Some u"
    and "comparePassword e password (u_password u)"
    and "list_all (\<lambda>d. d_macAddress d \<noteq> di_macAddress (getDeviceInfo e req)) (devices w)"
    and "(case MAX_DEVICES_PER_USER e of None \<Rightarrow> 4 | Some n \<Rightarrow> if n = 0 then 4 else n)
           \<le> int (length (filter (\<lambda>d. d_userId d = u_id u \<and> d_isActive d) (devices w)))"
  shows "login e fails now req (Str login_name) (Str password) w =
           ((403, DeviceLimitReached
                    (case MAX_DEVICES_PER_USER e of None \<Rightarrow> 4 | Some n \<Rightarrow> if n = 0 then 4 else n)
                    (length (filter (\<lambda>d. d_userId d = u_id u \<and> d_isActive d) (devices w)))
                    (case MAX_DEVICES_PER_USER e of None \<Rightarrow> 4 | Some n \<Rightarrow> if n = 0 then 4 else n)),
            w)"
proof -
  from assms(5) have "device_findUnique (di_macAddress (getDeviceInfo e req)) w = None"
    by (auto simp: device_findUnique_def find_None_iff list_all_iff)
  with assms show ?thesis
    by (simp add: login_validated login_handler_def Let_def device_count_def maxDevices_def)
qed

theorem login_quota_rejection_witness:
  "user_findFirst ''alice'' crowded = Some alice
   \<and> comparePassword demo_env ''Alice@123456'' (u_password alice)
   \<and> di_macAddress (getDeviceInfo demo_env laptop) = ''d0:9f:bd:12:aa:70''
   \<and> map d_macAddress (devices crowded)
       = [''75:71:24:82:ef:74'', ''02:00:00:00:00:01'', ''02:00:00:00:00:02'',
          ''02:00:00:00:00:03'']
   \<and> map d_userId (devices crowded) = [1, 1, 1, 2]
   \<and> map d_isActive (devices crowded) = [True, True, False, True]
   \<and> MAX_DEVICES_PER_USER demo_env = Some 1
   \<and> login demo_env no_failure 2000 laptop (Str ''alice'') (Str ''Alice@123456'') crowded =
       ((403, DeviceLimitReached 1 2 1), crowded)"
proof -
  have n: "''alice'' \<noteq> []" "''Alice@123456'' \<noteq> []" by simp_all
  have a: "user_findFirst ''alice'' crowded = Some alice"
    by (simp add: user_findFirst_def crowded_def world1_def alice_def bob_def)
  have b: "comparePassword demo_env ''Alice@123456'' (u_password alice)"
    by (simp add: comparePassword_def demo_env_def bcrypt_table_def alice_def)
  have m: "di_macAddress (getDeviceInfo demo_env laptop) = ''d0:9f:bd:12:aa:70''"
    by (simp add: installation credential_ops)
  have c: "list_all (\<lambda>d. d_macAddress d \<noteq> di_macAddress (getDeviceInfo demo_env laptop))
             (devices crowded)"
    unfolding m by (simp add: crowded_def world1_def alice_phone_def)
  have k: "length (filter (\<lambda>d. d_userId d = u_id alice \<and> d_isActive d) (devices crowded)) = 2"
    by (simp add: crowded_def world1_def alice_phone_def alice_def)
  have q: "MAX_DEVICES_PER_USER demo_env = Some 1" by (simp add: demo_env_def)
  have d: "(case MAX_DEVICES_PER_USER demo_env of None \<Rightarrow> 4 | Some n \<Rightarrow> if n = 0 then 4 else n)
      \<le> int (length (filter (\<lambda>d. d_userId d = u_id alice \<and> d_isActive d) (devices crowded)))"
    unfolding k q by simp
  have cols: "map d_macAddress (devices crowded)
       = [''75:71:24:82:ef:74'', ''02:00:00:00:00:01'', ''02:00:00:00:00:02'',
          ''02:00:00:00:00:03'']"
    "map d_userId (devices crowded) = [1, 1, 1, 2]"
    "map d_isActive (devices crowded) = [True, True, False, True]"
    by (simp_all add: crowded_def world1_def alice_phone_def)
  from login_quota_rejection [OF n a b c d, of no_failure 2000] a b m cols q k
  show ?thesis by simp
qed

text \<open>
  C4 as stated fails: bob has one active device, the maximum, and none of his devices has
  the fingerprint of the phone; the phone is registered to alice. His login from the phone
  is not refused: it returns credentials and writes a session and a connection.
\<close>

theorem quota_not_checked_for_a_registered_fingerprint:
  "u_id bob = 2 \<and> MAX_DEVICES_PER_USER demo_env = Some 1
   \<and> map d_userId (devices world2) = [1, 2]
   \<and> map d_isActive (devices world2) = [True, True]
   \<and> map d_macAddress (devices world2) = [''75:71:24:82:ef:74'', ''d0:9f:bd:12:aa:70'']
   \<and> di_macAddress (getDeviceInfo demo_env phone) = ''75:71:24:82:ef:74''
   \<and> fst (login demo_env no_failure 6000 phone (Str ''bob'') (Str ''Bob@1234567'') world2)
       = (200, LoginSuccessful (Jwt ''access-secret'' 2 6 906) (Jwt ''refresh-secret'' 2 6 604806)
                 \<lparr>uv_id = 2, uv_email = ''bob@example.com'', uv_username = ''bob'',
                  uv_firstName = None, uv_lastName = None, uv_isAdmin = True\<rparr>
                 \<lparr>dv_id = 3, dv_name = ''Unknown Device'', dv_macAddress = ''75:71:24:82:ef:74''\<rparr>)
   \<and> map s_userId (sessions (snd (login demo_env no_failure 6000 phone (Str ''bob'')
                                     (Str ''Bob@1234567'') world2))) = [1, 2, 2]
   \<and> map c_userId (connections (snd (login demo_env no_failure 6000 phone (Str ''bob'')
                                        (Str ''Bob@1234567'') world2))) = [1, 2, 2]"
  by (simp add: installation store_ops firewall_ops credential_ops validation handlers)

section \<open>Replay of a rotated refresh credential\<close>

text \<open>
  C3. Alice's credential was signed in second 1. A refresh at 1500, in the same second,
  succeeds and returns the very same credential, which stays in the session table; its
  replay at 3000 is accepted and answered with new credentials.
\<close>

theorem reuse_in_the_same_second_keeps_the_credential:
  "refresh demo_env 1500 (Str alice_token) world1
     = ((200, Tokens (Jwt ''access-secret'' 1 1 901) alice_token), same_second)
   \<and> map s_refreshToken (sessions same_second) = [alice_token]
   \<and> fst (refresh demo_env 3000 (Str alice_token) same_second)
       = (200, Tokens (Jwt ''access-secret'' 1 3 903) (Jwt ''refresh-secret'' 1 3 604803))"
  by (simp add: same_second_def installation store_ops credential_ops validation handlers)

section \<open>Granting twice\<close>

text \<open>
  C8. Calling addDeviceToWhitelist a second time with the same hardware address and network
  address leaves the filter exactly as the first call left it, from every filter state:
  the second call finds the rule of the hardware address and inserts nothing. The two
  hypotheses are about the machine, not the filter: the first call could run its insert
  for the hardware address and the second call could run its check.
\<close>

theorem grant_idempotent:
  assumes "\<not> fails1 (Run (Insert FORWARD (mac_rule macAddress)))"
    and "\<not> fails2 (Run (Check FORWARD (mac_rule macAddress)))"
  shows "filter_state (snd (addDeviceToWhitelist fails2 macAddress ipAddress
                              (snd (addDeviceToWhitelist fails1 macAddress ipAddress w))))
         = filter_state (snd (addDeviceToWhitelist fails1 macAddress ipAddress w))"
  using assms
  by (auto simp: addDeviceToWhitelist_def execAsync_def record_effect_def Let_def mac_rule_def
      ip_rule_def split: prod.splits if_splits)

theorem grant_idempotent_witness:
  "\<not> no_failure (Run (Insert FORWARD (mac_rule ''d0:9f:bd:12:aa:70'')))
   \<and> \<not> no_failure (Run (Check FORWARD (mac_rule ''d0:9f:bd:12:aa:70'')))
   \<and> forward (filter_state (snd (addDeviceToWhitelist no_failure ''d0:9f:bd:12:aa:70''
                                     ''10.0.0.6'' world1)))
       = [ip_rule ''10.0.0.6'', mac_rule ''d0:9f:bd:12:aa:70'', ip_rule ''10.0.0.5'',
          mac_rule ''75:71:24:82:ef:74'']
   \<and> filter_state (snd (addDeviceToWhitelist no_failure ''d0:9f:bd:12:aa:70'' ''10.0.0.6''
                (snd (addDeviceToWhitelist no_failure ''d0:9f:bd:12:aa:70'' ''10.0.0.6'' world1))))
       = filter_state (snd (addDeviceToWhitelist no_failure ''d0:9f:bd:12:aa:70'' ''10.0.0.6''
                              world1))"
proof -
  have a: "\<not> no_failure (Run (Insert FORWARD (mac_rule ''d0:9f:bd:12:aa:70'')))"
    and b: "\<not> no_failure (Run (Check FORWARD (mac_rule ''d0:9f:bd:12:aa:70'')))"
    by (simp_all add: no_failure_def)
  have c: "forward (filter_state (snd (addDeviceToWhitelist no_failure ''d0:9f:bd:12:aa:70''
                                     ''10.0.0.6'' world1)))
       = [ip_rule ''10.0.0.6'', mac_rule ''d0:9f:bd:12:aa:70'', ip_rule ''10.0.0.5'',
          mac_rule ''75:71:24:82:ef:74'']"
    by (simp add: installation firewall_ops record_effect_def Let_def)
  have d: "filter_state (snd (addDeviceToWhitelist no_failure ''d0:9f:bd:12:aa:70'' ''10.0.0.6''
                (snd (addDeviceToWhitelist no_failure ''d0:9f:bd:12:aa:70'' ''10.0.0.6'' world1))))
       = filter_state (snd (addDeviceToWhitelist no_failure ''d0:9f:bd:12:aa:70'' ''10.0.0.6''
                              world1))"
    using a b
    by (rule grant_idempotent [where ?fails1.0 = no_failure and ?fails2.0 = no_failure])
  from a b c d show ?thesis by (intro conjI)

qed

section \<open>What a removal from the whitelist touches\<close>

lemma removeDeviceFromWhitelist_frame:
  "users (snd (removeDeviceFromWhitelist fails m ip w)) = users w"
  "devices (snd (removeDeviceFromWhitelist fails m ip w)) = devices w"
  "sessions (snd (removeDeviceFromWhitelist fails m ip w)) = sessions w"
  "connections (snd (removeDeviceFromWhitelist fails m ip w)) = connections w"
  "auditLogs (snd (removeDeviceFromWhitelist fails m ip w)) = auditLogs w"
  "nextId (snd (removeDeviceFromWhitelist fails m ip w)) = nextId w"
  "trace (snd (removeDeviceFromWhitelist fails m ip w)) = trace w @ removal_commands fails m ip"
  by (simp_all add: removeDeviceFromWhitelist_def execAsync_def record_effect_def Let_def
      removal_commands_def split: prod.splits)



section \<open>Disconnecting every device\<close>






section \<open>Initialising the filter\<close>

lemma base_policy_runs: "list_all (\<lambda>cmd. \<not> no_failure cmd) base_policy"
  by (simp add: base_policy_def no_failure_def)

lemma initialize_store_frame:
  "users (snd (initializeCaptivePortal fails w)) = users w
   \<and> devices (snd (initializeCaptivePortal fails w)) = devices w
   \<and> sessions (snd (initializeCaptivePortal fails w)) = sessions w
   \<and> connections (snd (initializeCaptivePortal fails w)) = connections w
   \<and> nat_prerouting (filter_state (snd (initializeCaptivePortal fails w)))
       = nat_prerouting (filter_state w)
   \<and> nat_postrouting (filter_state (snd (initializeCaptivePortal fails w)))
       = nat_postrouting (filter_state w)"
  by (simp add: initializeCaptivePortal_def base_policy_def execAsync_def record_effect_def
      Let_def)

lemma initialize_after_flush:
  "\<not> fails (Run (Flush FORWARD)) \<Longrightarrow>
     set (forward (filter_state (snd (initializeCaptivePortal fails w)))) \<subseteq> set base_rules"
  by (simp add: initializeCaptivePortal_def base_policy_def base_rules_def execAsync_def
      record_effect_def Let_def)

lemma initialize_throws:
  "\<not> list_all (\<lambda>cmd. \<not> fails cmd) base_policy \<Longrightarrow> \<not> fst (initializeCaptivePortal fails w)"
  by (simp add: initializeCaptivePortal_def base_policy_def execAsync_def record_effect_def
      Let_def) blast

lemma initialize_all_run:
  assumes "list_all (\<lambda>cmd. \<not> fails cmd) base_policy"
  shows "initializeCaptivePortal fails w =
           (True, w\<lparr>filter_state := (filter_state w)\<lparr>forward := base_rules\<rparr>,
                    trace := trace w @ map Shell base_policy\<rparr>)"
  using assms
  by (simp add: initializeCaptivePortal_def base_policy_def base_rules_def execAsync_def
      record_effect_def Let_def)

text \<open>
  C7, as amended. initializeCaptivePortal may be called repeatedly. Each call first flushes
  the whole FORWARD chain, the accept rules of devices included, and then rebuilds the base
  policy there. When every one of its commands can run, it succeeds and FORWARD holds
  exactly the base policy, whatever the chain held before, so that a second call leaves
  the same filter. When a command cannot run, the call throws; if the flush ran, FORWARD
  then holds base rules only (those inserted so far). In every case the other chains and
  the stored rows are as before.
\<close>

theorem initialize_rebuilds_forward_chain:
  "(list_all (\<lambda>cmd. \<not> fails cmd) base_policy \<longrightarrow>
      initializeCaptivePortal fails w =
        (True, w\<lparr>filter_state := (filter_state w)\<lparr>forward := base_rules\<rparr>,
                 trace := trace w @ map Shell base_policy\<rparr>)
      \<and> filter_state (snd (initializeCaptivePortal fails (snd (initializeCaptivePortal fails w))))
          = filter_state (snd (initializeCaptivePortal fails w)))
   \<and> (\<not> list_all (\<lambda>cmd. \<not> fails cmd) base_policy \<longrightarrow> \<not> fst (initializeCaptivePortal fails w))
   \<and> (\<not> fails (Run (Flush FORWARD)) \<longrightarrow>
        set (forward (filter_state (snd (initializeCaptivePortal fails w)))) \<subseteq> set base_rules)
   \<and> devices (snd (initializeCaptivePortal fails w)) = devices w
   \<and> sessions (snd (initializeCaptivePortal fails w)) = sessions w
   \<and> connections (snd (initializeCaptivePortal fails w)) = connections w
   \<and> nat_prerouting (filter_state (snd (initializeCaptivePortal fails w)))
       = nat_prerouting (filter_state w)
   \<and> nat_postrouting (filter_state (snd (initializeCaptivePortal fails w)))
       = nat_postrouting (filter_state w)"
  using initialize_store_frame [of fails w] initialize_after_flush [of fails w]
    initialize_throws [of fails w]
  by (simp add: initialize_all_run)

theorem initialize_rebuilds_forward_chain_witness:
  "list_all (\<lambda>cmd. \<not> no_failure cmd) base_policy
   \<and> forward (filter_state (snd (initializeCaptivePortal no_failure world1))) = base_rules
   \<and> filter_state (snd (initializeCaptivePortal no_failure
                            (snd (initializeCaptivePortal no_failure world1))))
       = filter_state (snd (initializeCaptivePortal no_failure world1))
   \<and> \<not> list_all (\<lambda>cmd. \<not> drop_fails cmd) base_policy
   \<and> \<not> drop_fails (Run (Flush FORWARD))
   \<and> \<not> fst (initializeCaptivePortal drop_fails world1)
   \<and> set (forward (filter_state (snd (initializeCaptivePortal drop_fails world1))))
       \<subseteq> set base_rules
   \<and> devices (snd (initializeCaptivePortal drop_fails world1)) = devices world1"
proof -
  note ok = initialize_rebuilds_forward_chain [of no_failure world1]
  note bad = initialize_rebuilds_forward_chain [of drop_fails world1]
  have a: "\<not> list_all (\<lambda>cmd. \<not> drop_fails cmd) base_policy"
    by (simp add: base_policy_def drop_fails_def)
  have b: "\<not> drop_fails (Run (Flush FORWARD))"
    by (simp add: drop_fails_def)
  from ok base_policy_runs
  have run: "initializeCaptivePortal no_failure world1 =
      (True, world1\<lparr>filter_state := (filter_state world1)\<lparr>forward := base_rules\<rparr>,
                     trace := trace world1 @ map Shell base_policy\<rparr>)"
    and again: "filter_state (snd (initializeCaptivePortal no_failure
                            (snd (initializeCaptivePortal no_failure world1))))
       = filter_state (snd (initializeCaptivePortal no_failure world1))"
    by blast+
  from bad a b
  have thrown: "\<not> fst (initializeCaptivePortal drop_fails world1)"
    and rest: "set (forward (filter_state (snd (initializeCaptivePortal drop_fails world1))))
       \<subseteq> set base_rules"
    and same: "devices (snd (initializeCaptivePortal drop_fails world1)) = devices world1"
    by blast+
  have fw: "forward (filter_state (snd (initializeCaptivePortal no_failure world1))) = base_rules"
    by (simp add: run)
  from base_policy_runs fw again a b thrown rest same show ?thesis by (intro conjI)
qed

text \<open>
  C7 as stated fails: the accept rule of alice's phone, inserted at her login, is in the
  FORWARD chain before the initialisation and gone after it, while the device is still
  active in the store.
\<close>

theorem initialize_flushes_device_rules:
  "mac_rule ''75:71:24:82:ef:74'' \<in> set (forward (filter_state world1))
   \<and> d_isActive alice_phone \<and> d_macAddress alice_phone = ''75:71:24:82:ef:74''
   \<and> fst (initializeCaptivePortal no_failure world1)
   \<and> mac_rule ''75:71:24:82:ef:74''
       \<notin> set (forward (filter_state (snd (initializeCaptivePortal no_failure world1))))"
  by (simp add: initializeCaptivePortal_def base_policy_def execAsync_def record_effect_def
      Let_def mac_rule_def world1_def alice_phone_def no_failure_def)

section \<open>Logout and device disconnect\<close>

lemma logout_frame:
  "filter_state (snd (logout e now req refreshToken w)) = filter_state w"
  "devices (snd (logout e now req refreshToken w)) = devices w"
  "connections (snd (logout e now req refreshToken w)) = connections w"
  by (auto simp: logout_def Let_def session_updateMany_def auditLog_create_def
      record_effect_def split: option.splits authorization.splits sum.splits)

lemma logout_sessions:
  "sessions (snd (logout e now req refreshToken w)) =
     map (\<lambda>s. if Some (s_refreshToken s) = refreshToken \<and> s_refreshToken s \<noteq> Opaque []
              then s\<lparr>s_isActive := False\<rparr> else s) (sessions w)"
  by (auto simp: logout_def Let_def session_updateMany_def auditLog_create_def
      record_effect_def map_idI split: option.splits authorization.splits sum.splits)

lemma logout_trace:
  "list_all (\<lambda>ef. ef = Store SessionTable UpdateMany \<or> ef = Store AuditLogTable Create)
     (drop (length (trace w)) (trace (snd (logout e now req refreshToken w))))"
  by (auto simp: logout_def Let_def session_updateMany_def auditLog_create_def
      record_effect_def split: option.splits authorization.splits sum.splits)

lemma removeDeviceFromWhitelist_filter:
  "filter_state (snd (removeDeviceFromWhitelist fails m ip w)) =
     (if fails (RunOrTrue (Delete FORWARD (mac_rule m))) then filter_state w
      else if fails (RunOrTrue (Delete FORWARD (ip_rule ip)))
      then (filter_state w)\<lparr>forward := remove1 (mac_rule m) (forward (filter_state w))\<rparr>
      else (filter_state w)
             \<lparr>forward := remove1 (ip_rule ip) (remove1 (mac_rule m) (forward (filter_state w)))\<rparr>)"
  by (simp add: removeDeviceFromWhitelist_def execAsync_def record_effect_def Let_def
      remove1_idem)

lemma device_disconnect_own:
  assumes "device_findFirst deviceId (u_id requester) w = Some device"
  shows "fst (device_disconnect fails now req requester deviceId w)
           = (200, Message ''Device disconnected successfully'')"
    and "sessions (snd (device_disconnect fails now req requester deviceId w)) = sessions w"
    and "devices (snd (device_disconnect fails now req requester deviceId w)) =
           map (\<lambda>d. if d_id d = deviceId then d\<lparr>d_isActive := False\<rparr> else d) (devices w)"
    and "connections (snd (device_disconnect fails now req requester deviceId w)) =
           map (\<lambda>c. if c_deviceId c = deviceId \<and> c_isActive c
                    then c\<lparr>c_isActive := False, c_endTime := Some now\<rparr> else c) (connections w)"
    and "trace (snd (device_disconnect fails now req requester deviceId w)) =
           trace w @ removal_commands fails (d_macAddress device) (d_ipAddress device)
             @ [Store DeviceTable Update, Store ConnectionTable UpdateMany,
                Store AuditLogTable Create]"
    and "filter_state (snd (device_disconnect fails now req requester deviceId w)) =
           filter_state (snd (removeDeviceFromWhitelist fails (d_macAddress device)
                                (d_ipAddress device) w))"
  using assms
  by (simp_all add: device_disconnect_def Let_def device_update_def connection_updateMany_def
      auditLog_create_def record_effect_def removeDeviceFromWhitelist_frame split_def)

text \<open>
  C5, as amended. Logout revokes the session credential only: the sessions holding the
  presented refresh token are deactivated, and the filter, the devices and the connections
  are as before; its only writes are the session update and an audit entry. Disconnecting
  one's own device first runs the removal of the rule for the hardware address and then,
  only when that command could run, the removal of the rule for the network address; a
  failure is logged and the request goes on. It then marks the device inactive, then
  closes the open connections of the device, then writes the audit entry, in that order,
  and answers 200; it revokes no session.
\<close>

theorem logout_and_disconnect_effects:
  assumes "device_findFirst deviceId (u_id requester) w = Some device"
  shows "filter_state (snd (logout e now req refreshToken w)) = filter_state w
       \<and> devices (snd (logout e now req refreshToken w)) = devices w
       \<and> connections (snd (logout e now req refreshToken w)) = connections w
       \<and> sessions (snd (logout e now req refreshToken w)) =
           map (\<lambda>s. if Some (s_refreshToken s) = refreshToken \<and> s_refreshToken s \<noteq> Opaque []
                    then s\<lparr>s_isActive := False\<rparr> else s) (sessions w)
       \<and> list_all (\<lambda>ef. ef = Store SessionTable UpdateMany \<or> ef = Store AuditLogTable Create)
             (drop (length (trace w)) (trace (snd (logout e now req refreshToken w))))
       \<and> fst (device_disconnect fails now req requester deviceId w)
           = (200, Message ''Device disconnected successfully'')
       \<and> trace (snd (device_disconnect fails now req requester deviceId w)) =
           trace w
           @ [Shell (RunOrTrue (Delete FORWARD ([MacSource (d_macAddress device)], ACCEPT)))]
           @ (if fails (RunOrTrue (Delete FORWARD ([MacSource (d_macAddress device)], ACCEPT)))
              then []
              else [Shell (RunOrTrue (Delete FORWARD ([SourceAddr (d_ipAddress device)], ACCEPT)))])
           @ [Store DeviceTable Update, Store ConnectionTable UpdateMany,
              Store AuditLogTable Create]
       \<and> forward (filter_state (snd (device_disconnect fails now req requester deviceId w))) =
           (if fails (RunOrTrue (Delete FORWARD ([MacSource (d_macAddress device)], ACCEPT)))
            then forward (filter_state w)
            else if fails (RunOrTrue (Delete FORWARD ([SourceAddr (d_ipAddress device)], ACCEPT)))
            then remove1 ([MacSource (d_macAddress device)], ACCEPT) (forward (filter_state w))
            else remove1 ([SourceAddr (d_ipAddress device)], ACCEPT)
                   (remove1 ([MacSource (d_macAddress device)], ACCEPT)
                      (forward (filter_state w))))
       \<and> devices (snd (device_disconnect fails now req requester deviceId w)) =
           map (\<lambda>d. if d_id d = deviceId then d\<lparr>d_isActive := False\<rparr> else d) (devices w)
       \<and> connections (snd (device_disconnect fails now req requester deviceId w)) =
           map (\<lambda>c. if c_deviceId c = deviceId \<and> c_isActive c
                    then c\<lparr>c_isActive := False, c_endTime := Some now\<rparr> else c) (connections w)
       \<and> sessions (snd (device_disconnect fails now req requester deviceId w)) = sessions w"
proof -
  note lo = logout_frame [of e now req refreshToken w] logout_sessions [of e now req refreshToken w]
    logout_trace [of w e now req refreshToken]
  note dd = device_disconnect_own [OF assms, of fails now req]
  have tr: "trace (snd (device_disconnect fails now req requester deviceId w)) =
           trace w
           @ [Shell (RunOrTrue (Delete FORWARD ([MacSource (d_macAddress device)], ACCEPT)))]
           @ (if fails (RunOrTrue (Delete FORWARD ([MacSource (d_macAddress device)], ACCEPT)))
              then []
              else [Shell (RunOrTrue (Delete FORWARD ([SourceAddr (d_ipAddress device)], ACCEPT)))])
           @ [Store DeviceTable Update, Store ConnectionTable UpdateMany,
              Store AuditLogTable Create]"
    by (simp add: dd(5) removal_commands_def mac_rule_def ip_rule_def)
  have fw: "forward (filter_state (snd (device_disconnect fails now req requester deviceId w))) =
           (if fails (RunOrTrue (Delete FORWARD ([MacSource (d_macAddress device)], ACCEPT)))
            then forward (filter_state w)
            else if fails (RunOrTrue (Delete FORWARD ([SourceAddr (d_ipAddress device)], ACCEPT)))
            then remove1 ([MacSource (d_macAddress device)], ACCEPT) (forward (filter_state w))
            else remove1 ([SourceAddr (d_ipAddress device)], ACCEPT)
                   (remove1 ([MacSource (d_macAddress device)], ACCEPT)
                      (forward (filter_state w))))"
    by (simp add: dd(6) removeDeviceFromWhitelist_filter mac_rule_def ip_rule_def)
  from lo dd(1-4) tr fw show ?thesis by (intro conjI)
qed

theorem logout_and_disconnect_effects_witness:
  "device_findFirst 3 (u_id alice) world1 = Some alice_phone
   \<and> filter_state (snd (logout demo_env 2000 phone (Some alice_token) world1))
       = filter_state world1
   \<and> connections (snd (logout demo_env 2000 phone (Some alice_token) world1))
       = connections world1
   \<and> trace (snd (device_disconnect no_failure 2000 phone alice 3 world1)) =
       trace world1
       @ [Shell (RunOrTrue (Delete FORWARD ([MacSource ''75:71:24:82:ef:74''], ACCEPT))),
          Shell (RunOrTrue (Delete FORWARD ([SourceAddr ''10.0.0.5''], ACCEPT))),
          Store DeviceTable Update, Store ConnectionTable UpdateMany,
          Store AuditLogTable Create]
   \<and> forward (filter_state (snd (device_disconnect no_failure 2000 phone alice 3 world1))) = []
   \<and> sessions (snd (device_disconnect no_failure 2000 phone alice 3 world1)) = sessions world1
   \<and> fst (device_disconnect phone_fails 2000 phone alice 3 world1)
       = (200, Message ''Device disconnected successfully'')
   \<and> trace (snd (device_disconnect phone_fails 2000 phone alice 3 world1)) =
       trace world1
       @ [Shell (RunOrTrue (Delete FORWARD ([MacSource ''75:71:24:82:ef:74''], ACCEPT))),
          Store DeviceTable Update, Store ConnectionTable UpdateMany,
          Store AuditLogTable Create]
   \<and> forward (filter_state (snd (device_disconnect phone_fails 2000 phone alice 3 world1)))
       = forward (filter_state world1)"
proof -
  have a: "device_findFirst 3 (u_id alice) world1 = Some alice_phone"
    by (simp add: device_findFirst_def world1_def alice_def alice_phone_def)
  have b: "d_macAddress alice_phone = ''75:71:24:82:ef:74''" "d_ipAddress alice_phone = ''10.0.0.5''"
    by (simp_all add: alice_phone_def)
  have c: "\<not> no_failure (RunOrTrue (Delete FORWARD ([MacSource ''75:71:24:82:ef:74''], ACCEPT)))"
    "\<not> no_failure (RunOrTrue (Delete FORWARD ([SourceAddr ''10.0.0.5''], ACCEPT)))"
    "phone_fails (RunOrTrue (Delete FORWARD ([MacSource ''75:71:24:82:ef:74''], ACCEPT)))"
    by (simp_all add: no_failure_def phone_fails_def mac_rule_def)
  have d: "forward (filter_state world1)
      = [([SourceAddr ''10.0.0.5''], ACCEPT), ([MacSource ''75:71:24:82:ef:74''], ACCEPT)]"
    by (simp add: world1_def)
  from logout_and_disconnect_effects [OF a, where e = demo_env and now = 2000 and req = phone
      and refreshToken = "Some alice_token" and fails = no_failure]
    logout_and_disconnect_effects [OF a, where e = demo_env and now = 2000 and req = phone
      and refreshToken = "Some alice_token" and fails = phone_fails] a b c d
  show ?thesis by simp
qed

text \<open>
  C5 as stated fails: after alice's logout her session is revoked, but the accept rules of
  her phone are still in the FORWARD chain, her connection is still open, and the only
  effect of the request is the session update.
\<close>

theorem logout_leaves_device_granted:
  "sessions logged_out =
     [\<lparr>s_id = 4, s_refreshToken = alice_token, s_userId = 1, s_expiresAt = 604801000,
       s_isActive = False\<rparr>]
   \<and> forward (filter_state logged_out) = [ip_rule ''10.0.0.5'', mac_rule ''75:71:24:82:ef:74'']
   \<and> map c_isActive (connections logged_out) = [True]
   \<and> devices logged_out = [alice_phone]
   \<and> trace logged_out = trace world1 @ [Store SessionTable UpdateMany]"
  by (simp add: logged_out_def installation store_ops firewall_ops credential_ops handlers)

section \<open>Devices of other users\<close>

lemma device_findFirst_foreign:
  assumes "list_all (\<lambda>d. d_id d = deviceId \<longrightarrow> d_userId d \<noteq> u_id requester) (devices w)"
  shows "device_findFirst deviceId (u_id requester) w = None"
  using assms by (auto simp: device_findFirst_def find_None_iff list_all_iff)

lemma strip_Nil: "strip marks [] = []"
proof -
  have "find (\<lambda>m. m \<noteq> [] \<and> startsWith [] m) marks = None"
    by (auto simp: find_None_iff neq_Nil_conv)
  then show ?thesis by (subst strip.simps) simp
qed

lemma trim_empty: "trim [] = []"
  by (simp add: trim_def strip_Nil)

text \<open>
  C10, as amended. When every device with the requested identifier belongs to somebody
  else, the detail, disconnect, delete and history requests, and the rename request whose
  name is a string that is not blank, are answered with status 404 and "Device not found".
  A rename whose name is missing, falsy or blank (empty after removing white space) is
  answered with status 400 and "Device name is required", and one whose name is another
  value that is not a string with status 500, both before the device is looked up. In
  every case the state, the filter included, is unchanged.
\<close>

theorem foreign_device_untouched:
  assumes "list_all (\<lambda>d. d_id d = deviceId \<longrightarrow> d_userId d \<noteq> u_id requester) (devices w)"
  shows "device_detail requester deviceId w = ((404, Error ''Device not found''), w)
       \<and> device_rename requester deviceId deviceName w =
           ((case deviceName of
               Undefined \<Rightarrow> (400, Error ''Device name is required'')
             | Null \<Rightarrow> (400, Error ''Device name is required'')
             | NonString truthy \<Rightarrow>
                 if truthy then (500, Error ''Internal server error'')
                 else (400, Error ''Device name is required'')
             | Str name \<Rightarrow>
                 if trim name = [] then (400, Error ''Device name is required'')
                 else (404, Error ''Device not found'')), w)
       \<and> device_disconnect fails now req requester deviceId w = ((404, Error ''Device not found''), w)
       \<and> device_remove fails req requester deviceId w = ((404, Error ''Device not found''), w)
       \<and> device_connections requester deviceId page_param limit_param w =
           ((404, Error ''Device not found''), w)"
proof -
  have none: "device_findFirst deviceId (u_id requester) w = None"
    using assms by (rule device_findFirst_foreign)
  then show ?thesis
    using trim_empty
    by (auto simp: device_detail_def device_rename_def device_disconnect_def device_remove_def
        device_connections_def Let_def split: json.splits)
qed

theorem foreign_device_untouched_witness:
  "list_all (\<lambda>d. d_id d = 3 \<longrightarrow> d_userId d \<noteq> u_id bob) (devices world2)
   \<and> map d_id (devices world2) = [3, 6]
   \<and> device_detail bob 3 world2 = ((404, Error ''Device not found''), world2)
   \<and> device_rename bob 3 (Str ''my phone '') world2 = ((404, Error ''Device not found''), world2)
   \<and> device_disconnect no_failure 3000 laptop bob 3 world2
       = ((404, Error ''Device not found''), world2)
   \<and> device_remove no_failure laptop bob 3 world2 = ((404, Error ''Device not found''), world2)
   \<and> device_connections bob 3 None None world2 = ((404, Error ''Device not found''), world2)"
proof -
  have a: "list_all (\<lambda>d. d_id d = 3 \<longrightarrow> d_userId d \<noteq> u_id bob) (devices world2)"
    by (simp add: world2_def world1_def alice_phone_def bob_laptop_def bob_def)
  have b: "map d_id (devices world2) = [3, 6]"
    by (simp add: world2_def world1_def alice_phone_def bob_laptop_def)
  have c: "trim ''my phone '' = ''my phone''"
    by (simp add: trim_def white_space_def strip.simps)
  from foreign_device_untouched [OF a, of "Str ''my phone ''" no_failure 3000 laptop None None]
    a b c
  show ?thesis by simp
qed

text \<open>
  C10 as stated fails: bob's rename of alice's phone with a name made of a no-break space
  and a space is refused with the validation error, not with "Device not found".
\<close>

theorem blank_rename_is_a_validation_error:
  "map d_id (devices world2) = [3, 6]
   \<and> d_userId alice_phone = u_id alice \<and> u_id alice \<noteq> u_id bob
   \<and> trim [CHR 0xC2, CHR 0xA0, CHR 0x20] = []
   \<and> device_rename bob 3 (Str [CHR 0xC2, CHR 0xA0, CHR 0x20]) world2
       = ((400, Error ''Device name is required''), world2)"
  by (simp add: device_rename_def trim_def white_space_def strip.simps world2_def world1_def
      alice_phone_def bob_laptop_def alice_def bob_def)


section \<open>Device resolution at login\<close>

lemma addDeviceToWhitelist_devices:
  "devices (snd (addDeviceToWhitelist fails m ip w)) = devices w"
  by (simp add: addDeviceToWhitelist_def execAsync_def record_effect_def Let_def split_def)

lemma login_grant_devices:
  "devices (snd (login_grant e fails now req user deviceInfo device w)) = devices w"
  by (simp add: login_grant_def Let_def split_def session_create_def connection_create_def
      auditLog_create_def record_effect_def addDeviceToWhitelist_devices split: option.splits)

lemma login_grant_status:
  "fst (fst (login_grant e fails now req user deviceInfo device w)) \<noteq> 403"
  by (simp add: login_grant_def Let_def split_def split: option.splits)

text \<open>
  C2, as amended. The device is looked up by its fingerprint alone. When the login passes
  the validation and authenticates and a device record has the fingerprint, the user's own
  or another user's, that record is reused: its address and last-seen time are refreshed
  (and its client signature, when the request carries one) and it is set active; every
  other record is as before, no record is added, no owner changes, and the request is
  never refused for the quota.
\<close>

theorem login_reuses_registered_device:
  assumes "login_name \<noteq> []" and "password \<noteq> []"
    and "user_findFirst login_name w = Some u"
    and "comparePassword e password (u_password u)"
    and "device_findUnique (di_macAddress (getDeviceInfo e req)) w = Some d"
  shows "devices (snd (login e fails now req (Str login_name) (Str password) w)) =
           map (\<lambda>x. if d_id x = d_id d
                    then x\<lparr>d_ipAddress := req_ip req,
                           d_userAgent := (case req_userAgent req of
                                             None \<Rightarrow> d_userAgent x | Some ua \<Rightarrow> Some ua),
                           d_lastSeen := now, d_isActive := True\<rparr>
                    else x) (devices w)
       \<and> map d_userId (devices (snd (login e fails now req (Str login_name) (Str password) w)))
           = map d_userId (devices w)
       \<and> length (devices (snd (login e fails now req (Str login_name) (Str password) w)))
           = length (devices w)
       \<and> fst (fst (login e fails now req (Str login_name) (Str password) w)) \<noteq> 403"
proof -
  have run: "login e fails now req (Str login_name) (Str password) w =
      login_grant e fails now req u (getDeviceInfo e req) (refresh_device req now d)
        (device_update (d_id d) (refresh_device req now) w)"
    using assms by (simp add: login_validated login_handler_def Let_def)
  have devs: "devices (snd (login e fails now req (Str login_name) (Str password) w)) =
      map (\<lambda>x. if d_id x = d_id d
                    then x\<lparr>d_ipAddress := req_ip req,
                           d_userAgent := (case req_userAgent req of
                                             None \<Rightarrow> d_userAgent x | Some ua \<Rightarrow> Some ua),
                           d_lastSeen := now, d_isActive := True\<rparr>
                    else x) (devices w)"
    by (simp add: run login_grant_devices device_update_def record_effect_def refresh_device_def)
  have owners: "map d_userId
        (map (\<lambda>x. if d_id x = d_id d
                    then x\<lparr>d_ipAddress := req_ip req,
                           d_userAgent := (case req_userAgent req of
                                             None \<Rightarrow> d_userAgent x | Some ua \<Rightarrow> Some ua),
                           d_lastSeen := now, d_isActive := True\<rparr>
                    else x) (devices w))
      = map d_userId (devices w)"
    by (induction "devices w") auto
  have status: "fst (fst (login e fails now req (Str login_name) (Str password) w)) \<noteq> 403"
    by (simp add: run login_grant_status)
  from devs owners status show ?thesis by simp
qed

theorem login_reuses_registered_device_witness:
  "user_findFirst ''alice'' world1 = Some alice
   \<and> comparePassword demo_env ''Alice@123456'' (u_password alice)
   \<and> device_findUnique (di_macAddress (getDeviceInfo demo_env phone)) world1 = Some alice_phone
   \<and> d_userId alice_phone = u_id alice
   \<and> devices (snd (login demo_env no_failure 5000 phone (Str ''alice'') (Str ''Alice@123456'')
                      world1))
       = [alice_phone\<lparr>d_lastSeen := 5000\<rparr>]
   \<and> fst (fst (login demo_env no_failure 5000 phone (Str ''alice'') (Str ''Alice@123456'')
                  world1)) \<noteq> 403"
proof -
  have n: "''alice'' \<noteq> []" "''Alice@123456'' \<noteq> []" by simp_all
  have a: "user_findFirst ''alice'' world1 = Some alice"
    by (simp add: user_findFirst_def world1_def alice_def bob_def)
  have b: "comparePassword demo_env ''Alice@123456'' (u_password alice)"
    by (simp add: comparePassword_def demo_env_def bcrypt_table_def alice_def)
  have c: "device_findUnique (di_macAddress (getDeviceInfo demo_env phone)) world1
      = Some alice_phone"
    by (simp add: installation store_ops credential_ops)
  have d: "d_userId alice_phone = u_id alice"
    by (simp add: alice_phone_def alice_def)
  have e: "devices world1 = [alice_phone]" by (simp add: world1_def)
  have f: "alice_phone\<lparr>d_ipAddress := req_ip phone,
                        d_userAgent := (case req_userAgent phone of
                                          None \<Rightarrow> d_userAgent alice_phone | Some ua \<Rightarrow> Some ua),
                        d_lastSeen := 5000, d_isActive := True\<rparr>
      = alice_phone\<lparr>d_lastSeen := 5000\<rparr>"
    by (simp add: alice_phone_def phone_def)
  from login_reuses_registered_device [OF n a b c, of no_failure 5000] a b c d e f
  show ?thesis by simp
qed

text \<open>
  C2 as stated fails: bob, whose one permitted device is active, logs in with the
  fingerprint of alice's phone. The lookup finds alice's record; the login succeeds, no
  device is created for bob, alice's record is refreshed and bob's connection refers to it.
\<close>

theorem login_reuses_foreign_device:
  "device_count (u_id bob) world2 = 1 \<and> maxDevices demo_env = 1
   \<and> device_findUnique (di_macAddress (getDeviceInfo demo_env phone)) world2 = Some alice_phone
   \<and> d_userId alice_phone = u_id alice \<and> u_id alice \<noteq> u_id bob
   \<and> fst (fst (login demo_env no_failure 5000 phone (Str ''bob'') (Str ''Bob@1234567'') world2))
       = 200
   \<and> devices (snd (login demo_env no_failure 5000 phone (Str ''bob'') (Str ''Bob@1234567'')
                      world2))
       = [alice_phone\<lparr>d_lastSeen := 5000\<rparr>, bob_laptop]
   \<and> last (connections (snd (login demo_env no_failure 5000 phone (Str ''bob'')
                                 (Str ''Bob@1234567'') world2)))
       = \<lparr>c_id = 10, c_userId = 2, c_deviceId = 3, c_ipAddress = ''10.0.0.5'',
          c_startTime = 5000, c_endTime = None, c_isActive = True\<rparr>"
  by (simp add: installation store_ops firewall_ops credential_ops validation handlers)

section \<open>The quota under reactivation\<close>

text \<open>
  C1. With a quota of one device: alice logs in from the phone, disconnects it, logs in
  from the laptop, and logs in from the phone again. The last login succeeds and
  reactivates the phone without a look at the count, and alice has two active devices.
\<close>

theorem reactivation_exceeds_quota:
  "maxDevices demo_env = 1
   \<and> device_count (u_id alice) world1 = 1
   \<and> device_count (u_id alice) after_disconnect = 0
   \<and> device_count (u_id alice) after_second_device = 1
   \<and> fst (fst (login demo_env no_failure 4000 phone (Str ''alice'') (Str ''Alice@123456'')
                   after_second_device)) = 200
   \<and> map d_isActive (devices after_second_device) = [False, True]
   \<and> map d_isActive (devices after_relogin) = [True, True]
   \<and> map d_userId (devices after_relogin) = [u_id alice, u_id alice]
   \<and> device_count (u_id alice) after_relogin = 2"
  by (simp add: after_relogin_def after_second_device_def after_disconnect_def
      installation store_ops firewall_ops credential_ops validation handlers)

end
